theory Spec2Isabelle
  imports Complex_Main "HOL-Library.AList" "HOL-Library.Sublist"
begin

section \<open>Conventions of the embedding\<close>

text \<open>
  A Python \<open>str\<close> that the program inspects character by character (invoice text, candidate
  values, invoice numbers) is modelled as the list of its code points, \<open>pystr\<close>; dictionary
  keys that the program only compares with constants (field names) and requester identities
  are HOL strings. Case mapping, digits and white space are those of ASCII, which is what
  the source's patterns and the OCR whitelist use. Python floats (amounts, confidences,
  clock readings) are modelled as the rationals they denote, so binary rounding, infinities
  and NaN are outside the model. The clock \<open>time.time()\<close>, the parser \<open>float()\<close> and the digest
  \<open>hashlib.sha256\<close> are arguments of the operations that call them.
\<close>

subsection \<open>Decimal form of an integer (the f-string of the limiter's message)\<close>

definition digit_char :: "nat \<Rightarrow> char" where
  "digit_char d = ''0123456789'' ! d"

function str_nat :: "nat \<Rightarrow> string" where
  "str_nat n = (if n < 10 then [digit_char n] else str_nat (n div 10) @ [digit_char (n mod 10)])"
  by pat_completeness auto
termination
  by (relation "measure id") auto

declare str_nat.simps [simp del]

definition str_int :: "int \<Rightarrow> string" where
  "str_int i = (if i < 0 then CHR ''-'' # str_nat (nat (- i)) else str_nat (nat i))"

section \<open>Admission controller: \<open>utils/rate_limiter.py\<close>\<close>

record rate_limiter =
  max_requests :: int
  window_seconds :: int
  requests :: "string \<rightharpoonup> rat list"

text \<open>\<open>InMemoryRateLimiter.__init__(max_requests = 10, window_hours = 24)\<close>\<close>

definition init_limiter :: "int \<Rightarrow> int \<Rightarrow> rate_limiter" where
  "init_limiter mx window_hours =
     \<lparr>max_requests = mx, window_seconds = window_hours * 3600, requests = Map.empty\<rparr>"

definition default_limiter :: rate_limiter where
  "default_limiter = init_limiter 10 24"

text \<open>Reading \<open>self.requests[client_ip]\<close> of the \<open>defaultdict(deque)\<close>: a missing key reads as
  the empty deque (and is created, which the write-back of each operation records).\<close>

definition client_requests :: "rate_limiter \<Rightarrow> string \<Rightarrow> rat list" where
  "client_requests rl ip = (case requests rl ip of None \<Rightarrow> [] | Some q \<Rightarrow> q)"

text \<open>The loop \<open>while client_requests and client_requests[0] < cutoff: popleft()\<close>.\<close>

fun prune :: "rat \<Rightarrow> rat list \<Rightarrow> rat list" where
  "prune cutoff [] = []"
| "prune cutoff (t # ts) = (if t < cutoff then prune cutoff ts else t # ts)"

definition cutoff_of :: "rate_limiter \<Rightarrow> rat \<Rightarrow> rat" where
  "cutoff_of rl now = now - of_int (window_seconds rl)"

definition limit_message :: "rate_limiter \<Rightarrow> string" where
  "limit_message rl =
     ''Rate limit exceeded. Maximum '' @ str_int (max_requests rl) @ '' requests per 24 hours.''"

definition is_allowed :: "rate_limiter \<Rightarrow> rat \<Rightarrow> string \<Rightarrow> (bool \<times> string option) \<times> rate_limiter" where
  "is_allowed rl now ip =
     (let q = prune (cutoff_of rl now) (client_requests rl ip) in
      if max_requests rl \<le> int (length q)
      then ((False, Some (limit_message rl)), rl\<lparr>requests := (requests rl)(ip \<mapsto> q)\<rparr>)
      else ((True, None), rl\<lparr>requests := (requests rl)(ip \<mapsto> q @ [now])\<rparr>))"

definition get_remaining_requests :: "rate_limiter \<Rightarrow> rat \<Rightarrow> string \<Rightarrow> int \<times> rate_limiter" where
  "get_remaining_requests rl now ip =
     (let q = prune (cutoff_of rl now) (client_requests rl ip) in
      (max 0 (max_requests rl - int (length q)), rl\<lparr>requests := (requests rl)(ip \<mapsto> q)\<rparr>))"

text \<open>\<open>get_reset_time\<close> takes no clock reading and runs no pruning loop.\<close>

definition get_reset_time :: "rate_limiter \<Rightarrow> string \<Rightarrow> rat option \<times> rate_limiter" where
  "get_reset_time rl ip =
     (let q = client_requests rl ip; rl' = rl\<lparr>requests := (requests rl)(ip \<mapsto> q)\<rparr> in
      case q of [] \<Rightarrow> (None, rl') | t # _ \<Rightarrow> (Some (t + of_int (window_seconds rl)), rl'))"

text \<open>A trace of admission checks by arbitrary identities: the state after the trace and,
  in order, the checks that were allowed.\<close>

fun run_checks :: "rate_limiter \<Rightarrow> (string \<times> rat) list \<Rightarrow> rate_limiter \<times> (string \<times> rat) list" where
  "run_checks rl [] = (rl, [])"
| "run_checks rl ((ip, t) # cs) =
     (case is_allowed rl t ip of
        ((ok, _), rl') \<Rightarrow>
          (case run_checks rl' cs of
             (rl'', allowed) \<Rightarrow> (rl'', if ok then (ip, t) # allowed else allowed)))"

definition admitted_at :: "string \<Rightarrow> (string \<times> rat) list \<Rightarrow> rat list" where
  "admitted_at ip allowed = map snd (filter (\<lambda>c. fst c = ip) allowed)"


text \<open>The example of the specification: ten checks of one identity inside one window.\<close>

definition ten_checks :: "(string \<times> rat) list" where
  "ten_checks = map (\<lambda>t. (''1.2.3.4'', t)) [1, 2, 3, 4, 5, 6, 7, 8, 9, 10]"

section \<open>Strings and regular expressions\<close>

subsection \<open>The string operations the program calls\<close>

type_synonym pystr = "nat list"

definition ord :: "char \<Rightarrow> nat" where
  "ord c = of_char c"

definition codes :: "string \<Rightarrow> pystr" where
  "codes s = map ord s"

definition lower_cp :: "nat \<Rightarrow> nat" where
  "lower_cp c = (if 65 \<le> c \<and> c \<le> 90 then c + 32 else c)"

definition upper_cp :: "nat \<Rightarrow> nat" where
  "upper_cp c = (if 97 \<le> c \<and> c \<le> 122 then c - 32 else c)"

definition is_cased :: "nat \<Rightarrow> bool" where
  "is_cased c = (65 \<le> c \<and> c \<le> 90 \<or> 97 \<le> c \<and> c \<le> 122)"

definition is_space :: "nat \<Rightarrow> bool" where
  "is_space c = (9 \<le> c \<and> c \<le> 13 \<or> 28 \<le> c \<and> c \<le> 32)"

definition is_digit :: "nat \<Rightarrow> bool" where
  "is_digit c = (48 \<le> c \<and> c \<le> 57)"

definition str_lower :: "pystr \<Rightarrow> pystr" where
  "str_lower s = map lower_cp s"

definition str_upper :: "pystr \<Rightarrow> pystr" where
  "str_upper s = map upper_cp s"

text \<open>\<open>str.title()\<close>: a character that follows a cased character is lower-cased, any other
  character is upper-cased.\<close>

fun title_from :: "bool \<Rightarrow> pystr \<Rightarrow> pystr" where
  "title_from prev_cased [] = []"
| "title_from prev_cased (c # cs) =
     (if prev_cased then lower_cp c else upper_cp c) # title_from (is_cased c) cs"

definition str_title :: "pystr \<Rightarrow> pystr" where
  "str_title s = title_from False s"

definition str_strip :: "pystr \<Rightarrow> pystr" where
  "str_strip s = rev (dropWhile is_space (rev (dropWhile is_space s)))"

text \<open>\<open>s.split(sep)\<close> for a one-character separator keeps empty pieces; \<open>s.split()\<close> cuts at
  runs of white space and keeps none.\<close>

fun split_on :: "nat \<Rightarrow> pystr \<Rightarrow> pystr list" where
  "split_on sep [] = [[]]"
| "split_on sep (c # cs) =
     (if c = sep then [] # split_on sep cs
      else (case split_on sep cs of [] \<Rightarrow> [[c]] | w # ws \<Rightarrow> (c # w) # ws))"

fun split_ws_from :: "pystr \<Rightarrow> pystr \<Rightarrow> pystr list" where
  "split_ws_from cur [] = (if cur = [] then [] else [rev cur])"
| "split_ws_from cur (c # cs) =
     (if is_space c then (if cur = [] then split_ws_from [] cs else rev cur # split_ws_from [] cs)
      else split_ws_from (c # cur) cs)"

definition split_ws :: "pystr \<Rightarrow> pystr list" where
  "split_ws s = split_ws_from [] s"

fun join_with :: "pystr \<Rightarrow> pystr list \<Rightarrow> pystr" where
  "join_with sep [] = []"
| "join_with sep [w] = w"
| "join_with sep (w # ws) = w @ sep @ join_with sep ws"

fun is_prefix :: "pystr \<Rightarrow> pystr \<Rightarrow> bool" where
  "is_prefix [] s = True"
| "is_prefix (a # as) [] = False"
| "is_prefix (a # as) (c # cs) = (a = c \<and> is_prefix as cs)"

text \<open>\<open>sub in s\<close>\<close>

fun contains :: "pystr \<Rightarrow> pystr \<Rightarrow> bool" where
  "contains sub [] = (sub = [])"
| "contains sub (c # cs) = (is_prefix sub (c # cs) \<or> contains sub cs)"

subsection \<open>The part of \<open>re\<close> that the patterns use\<close>

text \<open>
  Patterns are syntax trees. Every \<open>*\<close>, \<open>+\<close>, \<open>+?\<close> and \<open>{m,n}\<close> of the source applies to a single
  character or character class, \<open>?\<close> applies to any pattern, and there is at most one capturing
  group. Matching is the backtracking search of \<open>re\<close>: alternatives in order, greedy
  quantifiers longest first, the lazy one shortest first, and \<open>search\<close> from the leftmost
  start. A position is the character before it (if any) and the rest of the text.
\<close>

datatype citem = One nat | Range nat nat | Space | Digit

datatype atom = Lit nat | Cls "citem list" | Dot

record re_flags =
  ignorecase :: bool
  multiline :: bool

fun item_match :: "citem \<Rightarrow> nat \<Rightarrow> bool" where
  "item_match (One a) c = (c = a)"
| "item_match (Range a b) c = (a \<le> c \<and> c \<le> b)"
| "item_match Space c = is_space c"
| "item_match Digit c = is_digit c"

fun atom_match :: "bool \<Rightarrow> atom \<Rightarrow> nat \<Rightarrow> bool" where
  "atom_match ic (Lit a) c = (if ic then lower_cp c = lower_cp a else c = a)"
| "atom_match ic (Cls items) c =
     (if ic
      then list_ex (\<lambda>i. item_match i c \<or> item_match i (lower_cp c) \<or> item_match i (upper_cp c)) items
      else list_ex (\<lambda>i. item_match i c) items)"
| "atom_match ic Dot c = (c \<noteq> 10)"

datatype rx = Atom atom | Str pystr | Then rx rx | Or rx rx | Opt rx
  | Star atom | Plus atom | PlusLazy atom | Rep nat nat atom | Group rx | Bol | Eol

type_synonym pos = "nat option \<times> pystr"

fun star :: "bool \<Rightarrow> atom \<Rightarrow> pos \<Rightarrow> (pos \<Rightarrow> 'r option) \<Rightarrow> 'r option" where
  "star ic a (pv, []) k = k (pv, [])"
| "star ic a (pv, c # cs) k =
     (if atom_match ic a c
      then (case star ic a (Some c, cs) k of Some r \<Rightarrow> Some r | None \<Rightarrow> k (pv, c # cs))
      else k (pv, c # cs))"

fun lazy_star :: "bool \<Rightarrow> atom \<Rightarrow> pos \<Rightarrow> (pos \<Rightarrow> 'r option) \<Rightarrow> 'r option" where
  "lazy_star ic a (pv, []) k = k (pv, [])"
| "lazy_star ic a (pv, c # cs) k =
     (case k (pv, c # cs) of
        Some r \<Rightarrow> Some r
      | None \<Rightarrow> if atom_match ic a c then lazy_star ic a (Some c, cs) k else None)"

fun rep :: "bool \<Rightarrow> atom \<Rightarrow> nat \<Rightarrow> nat \<Rightarrow> pos \<Rightarrow> (pos \<Rightarrow> 'r option) \<Rightarrow> 'r option" where
  "rep ic a lo hi (pv, []) k = (if lo = 0 then k (pv, []) else None)"
| "rep ic a lo hi (pv, c # cs) k =
     (if 0 < hi \<and> atom_match ic a c
      then (case rep ic a (lo - 1) (hi - 1) (Some c, cs) k of
              Some r \<Rightarrow> Some r
            | None \<Rightarrow> if lo = 0 then k (pv, c # cs) else None)
      else if lo = 0 then k (pv, c # cs) else None)"

fun lits :: "bool \<Rightarrow> pystr \<Rightarrow> pos \<Rightarrow> (pos \<Rightarrow> 'r option) \<Rightarrow> 'r option" where
  "lits ic [] p k = k p"
| "lits ic (a # as) (pv, []) k = None"
| "lits ic (a # as) (pv, c # cs) k =
     (if atom_match ic (Lit a) c then lits ic as (Some c, cs) k else None)"

text \<open>\<open>mt f r p g k\<close>: match \<open>r\<close> at position \<open>p\<close> with group 1 currently \<open>g\<close>, then continue with
  \<open>k\<close>; \<open>None\<close> is failure, which makes the caller try its next alternative.\<close>

fun mt :: "re_flags \<Rightarrow> rx \<Rightarrow> pos \<Rightarrow> pystr option \<Rightarrow> (pos \<Rightarrow> pystr option \<Rightarrow> 'r option) \<Rightarrow> 'r option" where
  "mt f (Atom a) (pv, s) g k =
     (case s of [] \<Rightarrow> None
      | c # cs \<Rightarrow> if atom_match (ignorecase f) a c then k (Some c, cs) g else None)"
| "mt f (Str as) p g k = lits (ignorecase f) as p (\<lambda>p'. k p' g)"
| "mt f (Then r1 r2) p g k = mt f r1 p g (\<lambda>p' g'. mt f r2 p' g' k)"
| "mt f (Or r1 r2) p g k = (case mt f r1 p g k of Some r \<Rightarrow> Some r | None \<Rightarrow> mt f r2 p g k)"
| "mt f (Opt r) p g k = (case mt f r p g k of Some r \<Rightarrow> Some r | None \<Rightarrow> k p g)"
| "mt f (Star a) p g k = star (ignorecase f) a p (\<lambda>p'. k p' g)"
| "mt f (Plus a) (pv, s) g k =
     (case s of [] \<Rightarrow> None
      | c # cs \<Rightarrow> if atom_match (ignorecase f) a c
                 then star (ignorecase f) a (Some c, cs) (\<lambda>p'. k p' g) else None)"
| "mt f (PlusLazy a) (pv, s) g k =
     (case s of [] \<Rightarrow> None
      | c # cs \<Rightarrow> if atom_match (ignorecase f) a c
                 then lazy_star (ignorecase f) a (Some c, cs) (\<lambda>p'. k p' g) else None)"
| "mt f (Rep lo hi a) p g k = rep (ignorecase f) a lo hi p (\<lambda>p'. k p' g)"
| "mt f (Group r) (pv, s) g k =
     mt f r (pv, s) g (\<lambda>p' g'. k p' (Some (take (length s - length (snd p')) s)))"
| "mt f Bol (pv, s) g k =
     (if pv = None \<or> (multiline f \<and> pv = Some 10) then k (pv, s) g else None)"
| "mt f Eol (pv, s) g k =
     (if s = [] \<or> (if multiline f then hd s = 10 else s = [10]) then k (pv, s) g else None)"

text \<open>The result of a successful match is what \<open>group(1)\<close> holds: \<open>None\<close> when the group took
  no part in the match.\<close>

fun search_from :: "re_flags \<Rightarrow> rx \<Rightarrow> pos \<Rightarrow> pystr option option" where
  "search_from f r (pv, []) = mt f r (pv, []) None (\<lambda>p g. Some g)"
| "search_from f r (pv, c # cs) =
     (case mt f r (pv, c # cs) None (\<lambda>p g. Some g) of
        Some g \<Rightarrow> Some g
      | None \<Rightarrow> search_from f r (Some c, cs))"

definition re_search :: "re_flags \<Rightarrow> rx \<Rightarrow> pystr \<Rightarrow> pystr option option" where
  "re_search f r text = search_from f r (None, text)"

definition re_match :: "re_flags \<Rightarrow> rx \<Rightarrow> pystr \<Rightarrow> pystr option option" where
  "re_match f r text = mt f r (None, text) None (\<lambda>p g. Some g)"

fun has_group :: "rx \<Rightarrow> bool" where
  "has_group (Group r) = True"
| "has_group (Then r1 r2) = (has_group r1 \<or> has_group r2)"
| "has_group (Or r1 r2) = (has_group r1 \<or> has_group r2)"
| "has_group (Opt r) = has_group r"
| "has_group _ = False"

subsection \<open>Writing patterns\<close>

fun seq :: "rx list \<Rightarrow> rx" where
  "seq [] = Str []"
| "seq [r] = r"
| "seq (r # rs) = Then r (seq rs)"

fun alts :: "rx list \<Rightarrow> rx" where
  "alts [] = Str []"
| "alts [r] = r"
| "alts (r # rs) = Or r (alts rs)"

definition lit :: "string \<Rightarrow> rx" where
  "lit s = Str (codes s)"

definition one :: "char \<Rightarrow> citem" where
  "one c = One (ord c)"

definition rng :: "char \<Rightarrow> char \<Rightarrow> citem" where
  "rng a b = Range (ord a) (ord b)"

definition words :: "string list \<Rightarrow> rx" where
  "words ws = alts (map lit ws)"

definition newline :: rx where
  "newline = Str [10]"

definition spaces :: rx where
  "spaces = Star (Cls [Space])"

definition no_flags :: re_flags where
  "no_flags = \<lparr>ignorecase = False, multiline = False\<rparr>"

definition search_flags :: re_flags where
  "search_flags = \<lparr>ignorecase = True, multiline = True\<rparr>"

subsection \<open>A necessary condition for a match\<close>

text \<open>Not part of the program: \<open>must ic r s\<close> says that every literal the pattern \<open>r\<close> cannot
  do without occurs in \<open>s\<close>. A search that succeeds satisfies it, so a pattern whose literals
  are absent from the text is known not to match without running the search.\<close>

fun lit_prefix :: "bool \<Rightarrow> pystr \<Rightarrow> pystr \<Rightarrow> bool" where
  "lit_prefix ic [] s = True"
| "lit_prefix ic (a # as) [] = False"
| "lit_prefix ic (a # as) (c # cs) = (atom_match ic (Lit a) c \<and> lit_prefix ic as cs)"

fun occurs :: "bool \<Rightarrow> pystr \<Rightarrow> pystr \<Rightarrow> bool" where
  "occurs ic w [] = (w = [])"
| "occurs ic w (c # cs) = (lit_prefix ic w (c # cs) \<or> occurs ic w cs)"

fun must :: "bool \<Rightarrow> rx \<Rightarrow> pystr \<Rightarrow> bool" where
  "must ic (Str w) s = occurs ic w s"
| "must ic (Then r1 r2) s = (must ic r1 s \<and> must ic r2 s)"
| "must ic (Or r1 r2) s = (must ic r1 s \<or> must ic r2 s)"
| "must ic (Group r) s = must ic r s"
| "must ic _ s = True"

section \<open>Field extraction and validation: \<open>models/invoice_model.py\<close>\<close>

subsection \<open>Data\<close>

datatype py_error = IndexError | AttributeError | TypeError | ValueError

record line_item =
  description :: pystr
  quantity :: "rat option"
  unit_price :: "rat option"
  line_total :: "rat option"

text \<open>A candidate is what \<open>extract_fields\<close> puts into its dict: the matched text of a field, or
  the list of line items. A validated value is a string, a number, or the line items.\<close>

datatype cand = CStr pystr | CItems "line_item list"

datatype pyval = PStr pystr | PNum rat | PItems "line_item list"

fun val_of :: "cand \<Rightarrow> pyval" where
  "val_of (CStr s) = PStr s"
| "val_of (CItems xs) = PItems xs"

text \<open>Truth value of an object, as \<open>if not value\<close> and \<open>x or 0\<close> take it.\<close>

fun truthy :: "cand \<Rightarrow> bool" where
  "truthy (CStr s) = (s \<noteq> [])"
| "truthy (CItems xs) = (xs \<noteq> [])"

fun py_truthy :: "pyval \<Rightarrow> bool" where
  "py_truthy (PStr s) = (s \<noteq> [])"
| "py_truthy (PNum x) = (x \<noteq> 0)"
| "py_truthy (PItems xs) = (xs \<noteq> [])"

record math_validation =
  subtotal_tax_total_match :: bool
  line_items_sum_match :: bool
  calculations_correct :: bool

record validation_result =
  extracted_data :: "(string \<times> pyval) list"
  field_confidence :: "(string \<times> rat) list"
  math_validation :: math_validation
  overall_confidence :: rat
  missing_required_fields :: "string list"

subsection \<open>The pattern table of \<open>__init__\<close>\<close>

definition id_chars :: atom where
  "id_chars = Cls [rng CHR ''A'' CHR ''Z'', rng CHR ''0'' CHR ''9'', one CHR ''-'']"

definition colon_space :: rx where
  "colon_space = Star (Cls [one CHR '':'', Space])"

text \<open>\<open>([0-9,]+\.?\d*)\<close>\<close>

definition amount :: rx where
  "amount = Group (seq [Plus (Cls [rng CHR ''0'' CHR ''9'', one CHR '','']), Opt (lit ''.''),
                       Star (Cls [Digit])])"

text \<open>\<open>\s*:?\s*\$?([0-9,]+\.?\d*)\<close>\<close>

definition money :: rx where
  "money = seq [spaces, Opt (lit '':''), spaces, Opt (lit ''$''), amount]"

text \<open>\<open>\s*#?\s*:?\s*\<close>\<close>

definition label_sep :: rx where
  "label_sep = seq [spaces, Opt (lit ''#''), spaces, Opt (lit '':''), spaces]"

text \<open>\<open>\d{1,2}[\/\-]\d{1,2}[\/\-]\d{2,4}\<close>\<close>

definition date_shape :: rx where
  "date_shape = seq [Rep 1 2 (Cls [Digit]), Atom (Cls [one CHR ''/'', one CHR ''-'']),
                     Rep 1 2 (Cls [Digit]), Atom (Cls [one CHR ''/'', one CHR ''-'']),
                     Rep 2 4 (Cls [Digit])]"

definition vendor_name_patterns :: "rx list" where
  "vendor_name_patterns =
    [seq [words [''from'', ''vendor'', ''company'', ''bill from'', ''sold by''], colon_space,
          Group (PlusLazy (Cls [rng CHR ''A'' CHR ''Z'', rng CHR ''a'' CHR ''z'', rng CHR ''0'' CHR ''9'',
                                Space, one CHR ''&'', one CHR ''.'', one CHR '','', one CHR ''-''])),
          alts [newline, lit ''address'', lit ''phone'', lit ''email'', lit ''tax'']],
     seq [Bol,
          Group (PlusLazy (Cls [rng CHR ''A'' CHR ''Z'', rng CHR ''a'' CHR ''z'', rng CHR ''0'' CHR ''9'',
                                Space, one CHR ''&'', one CHR ''.'', one CHR '','', one CHR ''-''])),
          alts [seq [newline, Star Dot, lit ''address''], lit ''phone'', lit ''email'']],
     Group (seq [Atom (Cls [rng CHR ''A'' CHR ''Z'']),
                 Plus (Cls [rng CHR ''A'' CHR ''Z'', rng CHR ''a'' CHR ''z'', Space,
                            one CHR ''&'', one CHR ''.'', one CHR '','', one CHR ''-'']),
                 words [''inc'', ''llc'', ''ltd'', ''corp'', ''company'']])]"

definition vendor_address_patterns :: "rx list" where
  "vendor_address_patterns =
    [seq [words [''address'', ''addr''], colon_space,
          Group (PlusLazy (Cls [rng CHR ''A'' CHR ''Z'', rng CHR ''a'' CHR ''z'', rng CHR ''0'' CHR ''9'',
                                Space, one CHR '','', one CHR ''.'', one CHR ''-'', one CHR ''#''])),
          alts [Str [10, 10], lit ''phone'', lit ''email'', lit ''tax'', lit ''invoice'']],
     Group (seq [Plus (Cls [Digit]), Plus (Cls [Space]),
                 Plus (Cls [rng CHR ''A'' CHR ''Z'', rng CHR ''a'' CHR ''z'', Space,
                            one CHR '','', one CHR ''.'', one CHR ''-'']),
                 Rep 5 5 (Cls [Digit])])]"

definition vendor_tax_id_patterns :: "rx list" where
  "vendor_tax_id_patterns =
    [seq [alts [seq [lit ''tax'', spaces, lit ''id''], lit ''gst'', lit ''vat'', lit ''ein''],
          Star (Cls [one CHR '':'', Space, one CHR ''#'']), Group (Plus id_chars)],
     seq [alts [seq [lit ''federal'', spaces, lit ''id''], seq [lit ''employer'', spaces, lit ''id'']],
          Star (Cls [one CHR '':'', Space, one CHR ''#'']), Group (Plus id_chars)]]"

definition vendor_contact_patterns :: "rx list" where
  "vendor_contact_patterns =
    [seq [words [''phone'', ''tel'', ''contact''], colon_space,
          Group (Plus (Cls [rng CHR ''0'' CHR ''9'', one CHR ''-'', one CHR ''('', one CHR '')'',
                            Space, one CHR ''+'']))],
     seq [words [''email'', ''e-mail''], colon_space,
          Group (Plus (Cls [rng CHR ''A'' CHR ''Z'', rng CHR ''a'' CHR ''z'', rng CHR ''0'' CHR ''9'',
                            one CHR ''@'', one CHR ''.'', one CHR ''-'', one CHR ''_'']))]]"

definition invoice_number_patterns :: "rx list" where
  "invoice_number_patterns =
    [seq [lit ''invoice'', label_sep, Group (Plus id_chars)],
     seq [lit ''inv'', label_sep, Group (Plus id_chars)],
     seq [lit ''#'', spaces, Group (Plus id_chars)],
     seq [lit ''invoice'', spaces, lit ''number'', colon_space, Group (Plus id_chars)]]"

definition invoice_date_patterns :: "rx list" where
  "invoice_date_patterns =
    [seq [Opt (seq [lit ''invoice'', spaces]), lit ''date'', spaces, Opt (lit '':''), spaces,
          Group date_shape],
     seq [Opt (seq [lit ''invoice'', spaces]), lit ''date'', spaces, Opt (lit '':''), spaces,
          Group (seq [Plus (Cls [rng CHR ''A'' CHR ''Z'', rng CHR ''a'' CHR ''z'']), Plus (Cls [Space]),
                      Rep 1 2 (Cls [Digit]), Opt (lit '',''), Plus (Cls [Space]), Rep 4 4 (Cls [Digit])])],
     Group date_shape]"

definition due_date_patterns :: "rx list" where
  "due_date_patterns =
    [seq [lit ''due'', spaces, lit ''date'', spaces, Opt (lit '':''), spaces, Group date_shape],
     seq [lit ''payment'', spaces, lit ''due'', spaces, Opt (lit '':''), spaces, Group date_shape]]"

definition po_number_patterns :: "rx list" where
  "po_number_patterns =
    [seq [alts [lit ''po'', seq [lit ''purchase'', spaces, lit ''order'']], label_sep,
          Group (Plus id_chars)],
     seq [lit ''p'', Opt (lit ''.''), lit ''o'', Opt (lit ''.''), label_sep, Group (Plus id_chars)]]"

definition payment_terms_patterns :: "rx list" where
  "payment_terms_patterns =
    [seq [alts [seq [lit ''payment'', spaces, lit ''terms''], lit ''terms''], colon_space,
          Group (alts [seq [lit ''net'', spaces, Plus (Cls [Digit])],
                       seq [lit ''due'', spaces, lit ''on'', spaces, lit ''receipt''],
                       Plus (Cls [rng CHR ''A'' CHR ''Z'', rng CHR ''a'' CHR ''z'', rng CHR ''0'' CHR ''9'',
                                  Space])])],
     Group (seq [lit ''net'', spaces, Plus (Cls [Digit])])]"

definition subtotal_patterns :: "rx list" where
  "subtotal_patterns =
    [seq [lit ''subtotal'', money],
     seq [lit ''sub'', spaces, lit ''total'', money]]"

definition tax_amount_patterns :: "rx list" where
  "tax_amount_patterns =
    [seq [lit ''tax'', spaces, Opt (lit ''amount''), money],
     seq [alts [seq [lit ''sales'', spaces, lit ''tax''], lit ''vat''], money]]"

definition tax_rate_patterns :: "rx list" where
  "tax_rate_patterns =
    [seq [lit ''tax'', spaces, Opt (lit ''rate''), spaces, Opt (lit '':''), spaces,
          Group (Plus (Cls [rng CHR ''0'' CHR ''9'', one CHR ''.''])), lit ''%''],
     seq [alts [seq [lit ''sales'', spaces, lit ''tax''], lit ''vat''], spaces, Opt (lit ''rate''),
          spaces, Opt (lit '':''), spaces,
          Group (Plus (Cls [rng CHR ''0'' CHR ''9'', one CHR ''.''])), lit ''%'']]"

definition discount_patterns :: "rx list" where
  "discount_patterns =
    [seq [lit ''discount'', money],
     seq [lit ''less'', money]]"

definition shipping_patterns :: "rx list" where
  "shipping_patterns =
    [seq [words [''shipping'', ''freight'', ''delivery''], money],
     seq [words [''handling'', ''ship''], money]]"

definition total_patterns :: "rx list" where
  "total_patterns =
    [seq [lit ''total'', spaces, Opt (lit ''amount''), spaces, Opt (lit ''due''), money],
     seq [lit ''amount'', spaces, lit ''due'', money],
     seq [lit ''grand'', spaces, lit ''total'', money],
     seq [lit ''$'', amount]]"

definition currency_patterns :: "rx list" where
  "currency_patterns =
    [Group (words [''$'', ''USD'', ''EUR'', ''GBP'', ''CAD'']),
     seq [lit ''currency'', colon_space, Group (Rep 3 3 (Cls [rng CHR ''A'' CHR ''Z'']))]]"

definition bank_details_patterns :: "rx list" where
  "bank_details_patterns =
    [seq [words [''bank'', ''routing'', ''account''], spaces, Opt (words [''number'', ''#'']),
          spaces, Opt (lit '':''), spaces,
          Group (Plus (Cls [rng CHR ''0'' CHR ''9'', one CHR ''-'']))],
     seq [words [''swift'', ''iban''], spaces, Opt (lit '':''), spaces,
          Group (Plus (Cls [rng CHR ''A'' CHR ''Z'', rng CHR ''0'' CHR ''9'']))]]"

definition notes_patterns :: "rx list" where
  "notes_patterns =
    [seq [words [''notes'', ''comments'', ''memo''], colon_space,
          Group (PlusLazy (Cls [rng CHR ''A'' CHR ''Z'', rng CHR ''a'' CHR ''z'', rng CHR ''0'' CHR ''9'',
                                Space, one CHR ''.'', one CHR '','', one CHR ''-''])),
          alts [Str [10, 10], Eol]]]"

definition payment_method_patterns :: "rx list" where
  "payment_method_patterns =
    [seq [alts [seq [lit ''payment'', spaces, lit ''method''], seq [lit ''pay'', spaces, lit ''via'']],
          colon_space,
          Group (Plus (Cls [rng CHR ''A'' CHR ''Z'', rng CHR ''a'' CHR ''z'', Space]))],
     words [''check'', ''cash'', ''credit'', ''wire'', ''ach'']]"

definition patterns :: "(string \<times> rx list) list" where
  "patterns =
    [(''vendor_name'', vendor_name_patterns),
     (''vendor_address'', vendor_address_patterns),
     (''vendor_tax_id'', vendor_tax_id_patterns),
     (''vendor_contact'', vendor_contact_patterns),
     (''invoice_number'', invoice_number_patterns),
     (''invoice_date'', invoice_date_patterns),
     (''due_date'', due_date_patterns),
     (''po_number'', po_number_patterns),
     (''payment_terms'', payment_terms_patterns),
     (''subtotal'', subtotal_patterns),
     (''tax_amount'', tax_amount_patterns),
     (''tax_rate'', tax_rate_patterns),
     (''discount'', discount_patterns),
     (''shipping'', shipping_patterns),
     (''total'', total_patterns),
     (''currency'', currency_patterns),
     (''bank_details'', bank_details_patterns),
     (''notes'', notes_patterns),
     (''payment_method'', payment_method_patterns)]"

subsection \<open>\<open>clean_number\<close>\<close>

text \<open>\<open>fl\<close> is \<open>float()\<close> on strings, \<open>None\<close> where it raises \<open>ValueError\<close>. The \<open>str()\<close> of a
  non-empty list begins with a bracket, which \<open>float()\<close> rejects.\<close>

fun clean_number :: "(pystr \<Rightarrow> rat option) \<Rightarrow> cand \<Rightarrow> rat option" where
  "clean_number fl (CStr s) =
     (if s = [] then None else fl (filter (\<lambda>c. c \<noteq> ord CHR ''$'' \<and> c \<noteq> ord CHR '','') s))"
| "clean_number fl (CItems xs) = None"

subsection \<open>\<open>extract_line_items\<close> and \<open>extract_fields\<close>\<close>

definition header_words :: "pystr list" where
  "header_words = map codes [''description'', ''qty'', ''quantity'', ''price'', ''total'', ''amount'']"

text \<open>\<open>^\$?[0-9,]+\.?\d*$\<close>\<close>

definition number_shape :: rx where
  "number_shape = seq [Bol, Opt (lit ''$''), Plus (Cls [rng CHR ''0'' CHR ''9'', one CHR '','']),
                       Opt (lit ''.''), Star (Cls [Digit]), Eol]"

definition line_item_of :: "(pystr \<Rightarrow> rat option) \<Rightarrow> pystr \<Rightarrow> line_item option" where
  "line_item_of fl line =
     (if str_strip line = [] \<or> list_ex (\<lambda>header. contains header (str_lower line)) header_words
      then None
      else let parts = split_ws line in
        if 3 \<le> length parts
        then let numbers = filter (\<lambda>p. re_match no_flags number_shape p \<noteq> None) parts in
          if 2 \<le> length numbers
          then Some \<lparr>description = join_with (codes '' '') (take (length parts - length numbers) parts),
                     quantity = (if 0 < length numbers then clean_number fl (CStr (hd numbers)) else None),
                     unit_price = (if 1 < length numbers
                                   then clean_number fl (CStr (numbers ! (length numbers - 2))) else None),
                     line_total = (if 0 < length numbers then clean_number fl (CStr (last numbers)) else None)\<rparr>
          else None
        else None)"

definition extract_line_items :: "(pystr \<Rightarrow> rat option) \<Rightarrow> pystr \<Rightarrow> line_item list" where
  "extract_line_items fl text = take 10 (List.map_filter (line_item_of fl) (split_on 10 text))"

text \<open>The inner loop over one field's patterns: \<open>None\<close> when no pattern matches, else
  \<open>match.group(1).strip()\<close> of the first that does. A pattern without a group makes
  \<open>group(1)\<close> raise \<open>IndexError\<close>; a group that took no part yields \<open>None\<close>, whose \<open>strip\<close> raises
  \<open>AttributeError\<close>.\<close>

fun first_match :: "rx list \<Rightarrow> pystr \<Rightarrow> (py_error + pystr) option" where
  "first_match [] text_lower = None"
| "first_match (pattern # rest) text_lower =
     (case re_search search_flags pattern text_lower of
        None \<Rightarrow> first_match rest text_lower
      | Some g \<Rightarrow>
          Some (if \<not> has_group pattern then Inl IndexError
                else case g of None \<Rightarrow> Inl AttributeError | Some s \<Rightarrow> Inr (str_strip s)))"

fun extract_loop :: "(string \<times> rx list) list \<Rightarrow> pystr \<Rightarrow> (string \<times> cand) list
    \<Rightarrow> py_error + (string \<times> cand) list" where
  "extract_loop [] text_lower extracted = Inr extracted"
| "extract_loop ((field, pats) # rest) text_lower extracted =
     (case first_match pats text_lower of
        None \<Rightarrow> extract_loop rest text_lower extracted
      | Some (Inl e) \<Rightarrow> Inl e
      | Some (Inr s) \<Rightarrow> extract_loop rest text_lower (AList.update field (CStr s) extracted))"

definition extract_fields :: "(pystr \<Rightarrow> rat option) \<Rightarrow> pystr \<Rightarrow> py_error + (string \<times> cand) list" where
  "extract_fields fl text =
     (case extract_loop patterns (str_lower text) [] of
        Inl e \<Rightarrow> Inl e
      | Inr extracted \<Rightarrow>
          (let line_items = extract_line_items fl text in
           Inr (if line_items \<noteq> [] then AList.update ''line_items'' (CItems line_items) extracted
                else extracted)))"

subsection \<open>\<open>validate_field\<close>\<close>

definition amount_fields :: "string list" where
  "amount_fields = [''subtotal'', ''tax_amount'', ''discount'', ''shipping'', ''total'']"

definition date_fields :: "string list" where
  "date_fields = [''invoice_date'', ''due_date'']"

text \<open>The body of the \<open>try\<close>. On a value that is not a string, \<open>re.match\<close> raises \<open>TypeError\<close> and
  \<open>upper\<close>/\<open>title\<close> raise \<open>AttributeError\<close>.\<close>

definition validate_try :: "(pystr \<Rightarrow> rat option) \<Rightarrow> string \<Rightarrow> cand \<Rightarrow> py_error + (pyval option \<times> rat)" where
  "validate_try fl field v =
     (if field \<in> set amount_fields
      then (let cleaned = clean_number fl v in
            Inr (map_option PNum cleaned, if cleaned \<noteq> None then 9 / 10 else 0))
      else if field \<in> set date_fields
      then (case v of
              CStr s \<Rightarrow> if re_match no_flags date_shape s \<noteq> None
                        then Inr (Some (PStr s), 8 / 10) else Inr (Some (PStr s), 5 / 10)
            | CItems xs \<Rightarrow> Inl TypeError)
      else if field = ''invoice_number''
      then (case v of CStr s \<Rightarrow> Inr (Some (PStr (str_upper s)), 9 / 10) | CItems xs \<Rightarrow> Inl AttributeError)
      else if field = ''vendor_name''
      then (case v of CStr s \<Rightarrow> Inr (Some (PStr (str_title s)), 7 / 10) | CItems xs \<Rightarrow> Inl AttributeError)
      else Inr (Some (val_of v), 6 / 10))"

definition validate_field :: "(pystr \<Rightarrow> rat option) \<Rightarrow> string \<Rightarrow> cand \<Rightarrow> pyval option \<times> rat" where
  "validate_field fl field v =
     (if \<not> truthy v then (None, 0)
      else case validate_try fl field v of
             Inr r \<Rightarrow> r
           | Inl e \<Rightarrow> (Some (val_of v), 3 / 10))"

subsection \<open>\<open>validate_mathematics\<close>\<close>

text \<open>\<open>data.get(k, 0) or 0\<close>, and the use of the result as a number: arithmetic on a string
  or a list raises \<open>TypeError\<close> (at the latest at the subtraction).\<close>

definition get_or_zero :: "(string \<times> pyval) list \<Rightarrow> string \<Rightarrow> pyval" where
  "get_or_zero data k =
     (case map_of data k of None \<Rightarrow> PNum 0 | Some v \<Rightarrow> if py_truthy v then v else PNum 0)"

fun as_number :: "pyval \<Rightarrow> py_error + rat" where
  "as_number (PNum x) = Inr x"
| "as_number (PStr s) = Inl TypeError"
| "as_number (PItems xs) = Inl TypeError"

definition or_zero :: "rat option \<Rightarrow> rat" where
  "or_zero x = (case x of None \<Rightarrow> 0 | Some y \<Rightarrow> y)"

text \<open>The line-item block: \<open>Inr\<close> of the comparison (or of \<open>False\<close> when there are no line
  items), \<open>Inl\<close> when iterating the value or calling \<open>item.get\<close> raises.\<close>

definition line_items_agree :: "(string \<times> pyval) list \<Rightarrow> rat \<Rightarrow> py_error + bool" where
  "line_items_agree data subtotal =
     (case map_of data ''line_items'' of
        None \<Rightarrow> Inr False
      | Some v \<Rightarrow>
          if \<not> py_truthy v then Inr False
          else (case v of
                  PItems xs \<Rightarrow> Inr (\<bar>sum_list (map (\<lambda>item. or_zero (line_total item)) xs) - subtotal\<bar> < 1 / 100)
                | PStr s \<Rightarrow> Inl AttributeError
                | PNum x \<Rightarrow> Inl TypeError))"

text \<open>An exception leaves \<open>validation\<close> as it is at that moment (\<open>except Exception: pass\<close>).\<close>

definition validate_mathematics :: "(string \<times> pyval) list \<Rightarrow> math_validation" where
  "validate_mathematics data =
     (let validation = \<lparr>subtotal_tax_total_match = False, line_items_sum_match = False,
                        calculations_correct = False\<rparr> in
      case (as_number (get_or_zero data ''subtotal''), as_number (get_or_zero data ''tax_amount''),
            as_number (get_or_zero data ''total''), as_number (get_or_zero data ''discount''),
            as_number (get_or_zero data ''shipping'')) of
        (Inr subtotal, Inr tax_amount, Inr total_due, Inr discount, Inr shipping) \<Rightarrow>
          (let calculated_total = subtotal + tax_amount + shipping - discount;
               validation1 = (if \<bar>calculated_total - total_due\<bar> < 1 / 100
                              then validation\<lparr>subtotal_tax_total_match := True\<rparr> else validation)
           in case line_items_agree data subtotal of
                Inl e \<Rightarrow> validation1
              | Inr agree \<Rightarrow>
                  (let validation2 = (if agree then validation1\<lparr>line_items_sum_match := True\<rparr>
                                      else validation1)
                   in validation2\<lparr>calculations_correct := subtotal_tax_total_match validation2\<rparr>))
      | _ \<Rightarrow> validation)"

text \<open>The records of the data model: the \<open>line_items\<close> entry, when there is one, is a list of
  line items (or a false value), as \<open>extract_fields\<close> produces it.\<close>

definition line_items_typed :: "(string \<times> pyval) list \<Rightarrow> bool" where
  "line_items_typed data =
     (case map_of data ''line_items'' of
        Some (PStr s) \<Rightarrow> s = []
      | Some (PNum x) \<Rightarrow> x = 0
      | _ \<Rightarrow> True)"

subsection \<open>\<open>calculate_overall_confidence\<close> and \<open>get_missing_required_fields\<close>\<close>

definition required_fields :: "string list" where
  "required_fields = [''invoice_number'', ''invoice_date'', ''total'', ''vendor_name'']"

text \<open>\<open>round(x, 2)\<close>: to the nearest hundredth, a tie to the even one.\<close>

definition py_round2 :: "rat \<Rightarrow> rat" where
  "py_round2 x =
     (let y = x * 100; n = \<lfloor>y\<rfloor>; d = y - of_int n in
      of_int (if d < 1 / 2 then n else if 1 / 2 < d then n + 1 else if even n then n else n + 1) / 100)"

definition calculate_overall_confidence :: "(string \<times> rat) list \<Rightarrow> math_validation \<Rightarrow> rat" where
  "calculate_overall_confidence fc mv =
     (if fc = [] then 0
      else let base_confidence = sum_list (map snd fc) / of_nat (length fc);
               math_boost = (if calculations_correct mv then 1 / 10 else 0);
               missing_penalty = sum_list (map (\<lambda>field. 5 / 100)
                                   (filter (\<lambda>field. field \<notin> fst ` set fc) required_fields));
               final_confidence = min 1 (base_confidence + math_boost - missing_penalty)
           in py_round2 final_confidence)"

definition get_missing_required_fields :: "(string \<times> pyval) list \<Rightarrow> string list" where
  "get_missing_required_fields data =
     filter (\<lambda>field. case map_of data field of None \<Rightarrow> True | Some v \<Rightarrow> \<not> py_truthy v) required_fields"

subsection \<open>\<open>validate_extraction\<close>\<close>

fun validate_loop :: "(pystr \<Rightarrow> rat option) \<Rightarrow> (string \<times> cand) list
    \<Rightarrow> (string \<times> pyval) list \<times> (string \<times> rat) list
    \<Rightarrow> (string \<times> pyval) list \<times> (string \<times> rat) list" where
  "validate_loop fl [] (validated, conf) = (validated, conf)"
| "validate_loop fl ((field, v) # rest) (validated, conf) =
     (if field = ''line_items''
      then validate_loop fl rest
             (AList.update field (val_of v) validated,
              AList.update field (if truthy v then 8 / 10 else 0) conf)
      else (case validate_field fl field v of
              (Some cleaned_value, confidence) \<Rightarrow>
                validate_loop fl rest
                  (AList.update field cleaned_value validated, AList.update field confidence conf)
            | (None, confidence) \<Rightarrow> validate_loop fl rest (validated, conf)))"

definition validate_extraction :: "(pystr \<Rightarrow> rat option) \<Rightarrow> (string \<times> cand) list \<Rightarrow> validation_result" where
  "validate_extraction fl data =
     (case validate_loop fl data ([], []) of
        (validated, conf) \<Rightarrow>
          (let mv = validate_mathematics validated in
           \<lparr>extracted_data = validated,
            field_confidence = conf,
            math_validation = mv,
            overall_confidence = calculate_overall_confidence conf mv,
            missing_required_fields = get_missing_required_fields validated\<rparr>))"

subsection \<open>String form of a validated value\<close>

text \<open>\<open>str(value)\<close>: a string is its own string form; \<open>str_of\<close> is \<open>str()\<close> on floats.\<close>

fun string_form :: "(rat \<Rightarrow> pystr) \<Rightarrow> pyval \<Rightarrow> cand" where
  "string_form str_of (PStr s) = CStr s"
| "string_form str_of (PNum x) = CStr (str_of x)"
| "string_form str_of (PItems xs) = CItems xs"

subsection \<open>Decimal literals of \<open>float()\<close>\<close>

text \<open>For the concrete inputs below: \<open>float()\<close> on an optionally signed decimal literal
  \<open>digits[.digits]\<close> or \<open>.digits\<close> between optional white space, with its exact value. Literals
  such as \<open>100.00\<close> denote floats exactly.\<close>

definition digits_value :: "pystr \<Rightarrow> nat" where
  "digits_value ds = foldl (\<lambda>n c. 10 * n + (c - 48)) 0 ds"

definition unsigned_decimal :: "pystr \<Rightarrow> rat option" where
  "unsigned_decimal u =
     (let ip = takeWhile is_digit u; r = dropWhile is_digit u in
      case r of
        [] \<Rightarrow> if ip = [] then None else Some (of_nat (digits_value ip))
      | c # fp \<Rightarrow>
          if c = ord CHR ''.'' \<and> list_all is_digit fp \<and> (ip \<noteq> [] \<or> fp \<noteq> [])
          then Some (of_nat (digits_value (ip @ fp)) / 10 ^ length fp)
          else None)"

definition float_decimal :: "pystr \<Rightarrow> rat option" where
  "float_decimal s =
     (case str_strip s of
        [] \<Rightarrow> None
      | c # u \<Rightarrow>
          if c = ord CHR ''-'' then map_option uminus (unsigned_decimal u)
          else if c = ord CHR ''+'' then unsigned_decimal u
          else unsigned_decimal (c # u))"

text \<open>A parser and a printer that fit together, for natural-number literals: the parser
  accepts a non-empty string of digits, the printer writes the integer part in decimal.\<close>

definition float_digits :: "pystr \<Rightarrow> rat option" where
  "float_digits s = (if s \<noteq> [] \<and> list_all is_digit s then Some (of_nat (digits_value s)) else None)"

definition str_digits :: "rat \<Rightarrow> pystr" where
  "str_digits x = codes (str_nat (nat \<lfloor>x\<rfloor>))"

text \<open>Records and candidate maps for the concrete instances below.\<close>

definition sample_record :: "(string \<times> pyval) list" where
  "sample_record =
     [(''subtotal'', PNum 100), (''tax_amount'', PNum 10), (''total'', PNum 110),
      (''line_items'', PItems [\<lparr>description = codes ''Widget'', quantity = Some 1,
                                unit_price = Some 50, line_total = Some 50\<rparr>])]"

definition sample_candidates :: "(string \<times> cand) list" where
  "sample_candidates =
     [(''invoice_number'', CStr (codes ''inv-1'')), (''total'', CStr (codes ''n/a'')),
      (''line_items'', CItems [])]"

definition empty_items_result :: validation_result where
  "empty_items_result = validate_extraction float_decimal [(''line_items'', CItems [])]"

text \<open>The example text of the specification.\<close>

definition example_text :: pystr where
  "example_text =
     codes ''Invoice #: INV-2024-001'' @ [10] @ codes ''Date: 12/15/2024'' @ [10]
     @ codes ''Subtotal: $100.00'' @ [10] @ codes ''Tax: $10.00'' @ [10] @ codes ''Total: $110.00''"

section \<open>Deduplication cache: \<open>utils/duplicate_detector.py\<close>\<close>

text \<open>
  The detector stores the record it is given; the pipeline passes the response built from
  \<open>validate_extraction\<close>, whose \<open>extracted_data\<close> entry is the only part the detector reads.
  Raw document bytes are a list of (8-bit) characters. The detector's maps are annotated with
  \<open>str\<close> keys: an invoice number is a string, which is what validation produces from a string
  candidate; a value of another kind under \<open>invoice_number\<close> is read as no invoice number.
\<close>

type_synonym bytes = "char list"

record stored_invoice =
  data :: validation_result
  timestamp :: rat
  client_ip :: string
  content_hash :: string

record duplicate_detector =
  retention_seconds :: int
  processed_invoices :: "(pystr \<times> stored_invoice) list"
  invoice_hashes :: "(string \<times> pystr) list"
  client_invoices :: "(string \<times> pystr set) list"

text \<open>\<open>DuplicateDetector.__init__(retention_hours = 24)\<close>\<close>

definition init_detector :: "int \<Rightarrow> duplicate_detector" where
  "init_detector retention_hours =
     \<lparr>retention_seconds = retention_hours * 3600, processed_invoices = [], invoice_hashes = [],
      client_invoices = []\<rparr>"

definition default_detector :: duplicate_detector where
  "default_detector = init_detector 24"

text \<open>\<open>invoice_data.get('extracted_data', {}).get('invoice_number')\<close>\<close>

definition invoice_number_of :: "validation_result \<Rightarrow> pystr option" where
  "invoice_number_of invoice_data =
     (case map_of (extracted_data invoice_data) ''invoice_number'' of
        Some (PStr s) \<Rightarrow> Some s
      | _ \<Rightarrow> None)"

subsection \<open>\<open>_cleanup_old_entries\<close>\<close>

definition expired_invoices :: "duplicate_detector \<Rightarrow> rat \<Rightarrow> pystr list" where
  "expired_invoices det now =
     map fst (filter (\<lambda>(invoice_number, d). timestamp d < now - of_int (retention_seconds det))
                     (processed_invoices det))"

text \<open>\<open>self.client_invoices[client_ip].discard(invoice_number)\<close>, dropping the identity when its
  set becomes empty.\<close>

definition discard_client :: "string \<Rightarrow> pystr \<Rightarrow> (string \<times> pystr set) list \<Rightarrow> (string \<times> pystr set) list" where
  "discard_client ip invoice_number ci =
     (case map_of ci ip of
        None \<Rightarrow> ci
      | Some numbers \<Rightarrow>
          if numbers - {invoice_number} = {} then AList.delete ip ci
          else AList.update ip (numbers - {invoice_number}) ci)"

text \<open>One pass of the removal loop: \<open>pop\<close> the entry, then clean the two indexes.\<close>

definition remove_entry :: "pystr \<Rightarrow> duplicate_detector \<Rightarrow> duplicate_detector" where
  "remove_entry invoice_number det =
     (case map_of (processed_invoices det) invoice_number of
        None \<Rightarrow> det
      | Some d \<Rightarrow>
          det\<lparr>processed_invoices := AList.delete invoice_number (processed_invoices det),
              invoice_hashes := AList.delete (content_hash d) (invoice_hashes det),
              client_invoices := discard_client (client_ip d) invoice_number (client_invoices det)\<rparr>)"

fun remove_expired :: "pystr list \<Rightarrow> duplicate_detector \<Rightarrow> duplicate_detector" where
  "remove_expired [] det = det"
| "remove_expired (invoice_number # rest) det = remove_expired rest (remove_entry invoice_number det)"

definition cleanup_old_entries :: "duplicate_detector \<Rightarrow> rat \<Rightarrow> duplicate_detector" where
  "cleanup_old_entries det now = remove_expired (expired_invoices det now) det"

subsection \<open>\<open>check_duplicate\<close>\<close>

text \<open>The content-hash check: the hash is indexed and the invoice it names is still stored.\<close>

definition hash_hit :: "duplicate_detector \<Rightarrow> string \<Rightarrow> stored_invoice option" where
  "hash_hit det h =
     (case map_of (invoice_hashes det) h of
        None \<Rightarrow> None
      | Some previous_invoice \<Rightarrow> map_of (processed_invoices det) previous_invoice)"

text \<open>Reading \<open>self.client_invoices[client_ip]\<close> of the \<open>defaultdict(set)\<close>.\<close>

definition client_numbers :: "duplicate_detector \<Rightarrow> string \<Rightarrow> pystr set" where
  "client_numbers det ip = (case map_of (client_invoices det) ip of None \<Rightarrow> {} | Some numbers \<Rightarrow> numbers)"

text \<open>The invoice-number check for the same client: membership in the client's set, then the
  loop over the stored entries.\<close>

definition number_hit :: "duplicate_detector \<Rightarrow> string \<Rightarrow> pystr \<Rightarrow> stored_invoice option" where
  "number_hit det ip invoice_number =
     (if invoice_number \<in> client_numbers det ip
      then map_option snd
             (List.find (\<lambda>(stored_number, d). stored_number = invoice_number \<and> client_ip d = ip)
                        (processed_invoices det))
      else None)"

definition store_invoice :: "duplicate_detector \<Rightarrow> rat \<Rightarrow> string \<Rightarrow> string \<Rightarrow> pystr
    \<Rightarrow> validation_result \<Rightarrow> duplicate_detector" where
  "store_invoice det now ip h invoice_number invoice_data =
     det\<lparr>processed_invoices :=
           AList.update invoice_number
             \<lparr>data = invoice_data, timestamp = now, client_ip = ip, content_hash = h\<rparr>
             (processed_invoices det),
         invoice_hashes := AList.update h invoice_number (invoice_hashes det),
         client_invoices :=
           AList.update ip (insert invoice_number (client_numbers det ip)) (client_invoices det)\<rparr>"

text \<open>\<open>sha256\<close> is the digest (\<open>hashlib.sha256(file_bytes).hexdigest()\<close>); \<open>now_cleanup\<close> and
  \<open>now_store\<close> are the two readings of the clock, in \<open>_cleanup_old_entries\<close> and when the entry
  is stored.\<close>

definition check_duplicate :: "(bytes \<Rightarrow> string) \<Rightarrow> duplicate_detector \<Rightarrow> rat \<Rightarrow> rat \<Rightarrow> string \<Rightarrow> bytes
    \<Rightarrow> validation_result \<Rightarrow> (bool \<times> stored_invoice option) \<times> duplicate_detector" where
  "check_duplicate sha256 det0 now_cleanup now_store ip file_bytes invoice_data =
     (let det = cleanup_old_entries det0 now_cleanup;
          h = sha256 file_bytes;
          invoice_number = invoice_number_of invoice_data
      in case hash_hit det h of
           Some previous \<Rightarrow> ((True, Some previous), det)
         | None \<Rightarrow>
             (case invoice_number of
                None \<Rightarrow> ((False, None), det)
              | Some n \<Rightarrow>
                  if n = [] then ((False, None), det)
                  else (case number_hit det ip n of
                          Some previous \<Rightarrow> ((True, Some previous), det)
                        | None \<Rightarrow> ((False, None), store_invoice det now_store ip h n invoice_data))))"

subsection \<open>Traces of submissions\<close>

text \<open>A submission: the two clock readings, the identity, the bytes and the record.\<close>

type_synonym submission = "rat \<times> rat \<times> string \<times> bytes \<times> validation_result"

fun run_submissions :: "(bytes \<Rightarrow> string) \<Rightarrow> duplicate_detector \<Rightarrow> submission list \<Rightarrow> duplicate_detector" where
  "run_submissions sha256 det [] = det"
| "run_submissions sha256 det ((tc, ts, ip, b, d) # rest) =
     run_submissions sha256 (snd (check_duplicate sha256 det tc ts ip b d)) rest"

text \<open>\<open>undisturbed sha256 det n t0 subs\<close>: along the trace \<open>subs\<close> from \<open>det\<close>, an entry stored at
  time \<open>t0\<close> under invoice number \<open>n\<close> never expires, and no submission is stored under \<open>n\<close>
  (each one either is answered as a duplicate or carries another invoice number).\<close>

fun undisturbed :: "(bytes \<Rightarrow> string) \<Rightarrow> duplicate_detector \<Rightarrow> pystr \<Rightarrow> rat \<Rightarrow> submission list \<Rightarrow> bool" where
  "undisturbed sha256 det n t0 [] = True"
| "undisturbed sha256 det n t0 ((tc, ts, ip, b, d) # rest) =
     (\<not> t0 < tc - of_int (retention_seconds det)
      \<and> (fst (fst (check_duplicate sha256 det tc ts ip b d)) \<or> invoice_number_of d \<noteq> Some n)
      \<and> undisturbed sha256 (snd (check_duplicate sha256 det tc ts ip b d)) n t0 rest)"

text \<open>Well-formed states: the two dicts have unique keys and every stored entry is indexed by
  its content hash. The empty detector is well formed and \<open>check_duplicate\<close> keeps states so.\<close>

definition wf_detector :: "duplicate_detector \<Rightarrow> bool" where
  "wf_detector det =
     (distinct (map fst (processed_invoices det))
      \<and> distinct (map fst (invoice_hashes det))
      \<and> list_all (\<lambda>(n, d). map_of (invoice_hashes det) (content_hash d) = Some n)
                  (processed_invoices det))"

text \<open>For the concrete scenarios, a stand-in for the digest that, like SHA-256 on the inputs
  at hand, gives different bytes different hashes; and records as validation produces them.\<close>

definition plain_digest :: "bytes \<Rightarrow> string" where
  "plain_digest b = b"

definition record_with_number :: "string \<Rightarrow> validation_result" where
  "record_with_number s = validate_extraction float_decimal [(''invoice_number'', CStr (codes s))]"

definition record_without_number :: validation_result where
  "record_without_number = validate_extraction float_decimal [(''currency'', CStr (codes ''$''))]"

section \<open>Properties of the admission controller\<close>


lemma prune_drop: "\<exists>k. prune c q = drop k q \<and> (\<forall>x\<in>set (take k q). x < c)"
proof (induction q)
  case Nil
  then show ?case by simp
next
  case (Cons t q)
  show ?case
  proof (cases "t < c")
    case True
    from Cons obtain k where "prune c q = drop k q" "\<forall>x\<in>set (take k q). x < c" by blast
    with True have "prune c (t # q) = drop (Suc k) (t # q) \<and> (\<forall>x\<in>set (take (Suc k) (t # q)). x < c)"
      by simp
    then show ?thesis by blast
  next
    case False
    then have "prune c (t # q) = drop 0 (t # q) \<and> (\<forall>x\<in>set (take 0 (t # q)). x < c)" by simp
    then show ?thesis by blast
  qed
qed

lemma prune_append_keep: "\<forall>x\<in>set ys. \<not> x < c \<Longrightarrow> prune c (xs @ ys) = prune c xs @ ys"
proof (induction xs)
  case Nil
  then show ?case by (cases ys) auto
next
  case (Cons a xs)
  then show ?case by simp
qed

lemma prune_idem: "prune c (prune c q) = prune c q"
  by (induction q) auto

lemma prune_all_expired: "\<forall>x\<in>set q. x < c \<Longrightarrow> prune c q = []"
  by (induction q) auto

lemma is_allowed_fields:
  "max_requests (snd (is_allowed rl t i)) = max_requests rl \<and>
   window_seconds (snd (is_allowed rl t i)) = window_seconds rl"
  by (simp add: is_allowed_def Let_def)

lemma is_allowed_other:
  "i \<noteq> ip \<Longrightarrow> client_requests (snd (is_allowed rl t i)) ip = client_requests rl ip"
  by (simp add: is_allowed_def Let_def client_requests_def)

lemma run_checks_fields:
  "run_checks rl cs = (rl', al) \<Longrightarrow>
   max_requests rl' = max_requests rl \<and> window_seconds rl' = window_seconds rl"
proof (induction cs arbitrary: rl rl' al)
  case Nil
  then show ?case by simp
next
  case (Cons c cs)
  obtain i t where c: "c = (i, t)" by (cases c)
  obtain r rl1 where s: "is_allowed rl t i = (r, rl1)" by (cases "is_allowed rl t i")
  obtain ok m where r: "r = (ok, m)" by (cases r)
  obtain rl2 al2 where rc: "run_checks rl1 cs = (rl2, al2)" by (cases "run_checks rl1 cs")
  from Cons.prems c s r rc have "rl' = rl2" by simp
  moreover from Cons.IH[OF rc] have "max_requests rl2 = max_requests rl1 \<and> window_seconds rl2 = window_seconds rl1" .
  moreover from is_allowed_fields[of rl t i] s have "max_requests rl1 = max_requests rl \<and> window_seconds rl1 = window_seconds rl" by simp
  ultimately show ?case by simp
qed

lemma run_checks_deque:
  assumes "run_checks rl cs = (rl', al)"
    and "\<forall>(i, t) \<in> set cs. i = ip \<longrightarrow> t - of_int (window_seconds rl) \<le> c \<and> c \<le> t"
  shows "\<exists>k. client_requests rl' ip = drop k (client_requests rl ip) @ admitted_at ip al
           \<and> (\<forall>x\<in>set (take k (client_requests rl ip)). x < c)"
  using assms
proof (induction cs arbitrary: rl rl' al)
  case Nil
  then have "client_requests rl' ip = drop 0 (client_requests rl ip) @ admitted_at ip al
     \<and> (\<forall>x\<in>set (take 0 (client_requests rl ip)). x < c)"
    by (simp add: admitted_at_def)
  then show ?case by blast
next
  case (Cons a cs)
  obtain i t where a: "a = (i, t)" by (cases a)
  obtain r rl1 where s: "is_allowed rl t i = (r, rl1)" by (cases "is_allowed rl t i")
  obtain ok m where r: "r = (ok, m)" by (cases r)
  obtain rl2 al2 where rc: "run_checks rl1 cs = (rl2, al2)" by (cases "run_checks rl1 cs")
  from Cons.prems(1) a s r rc have rl': "rl' = rl2" and al: "al = (if ok then (i, t) # al2 else al2)"
    by simp_all
  from is_allowed_fields[of rl t i] s have w1: "window_seconds rl1 = window_seconds rl" by simp
  from Cons.prems(2) w1 have "\<forall>(i, t) \<in> set cs. i = ip \<longrightarrow> t - of_int (window_seconds rl1) \<le> c \<and> c \<le> t"
    by simp
  from Cons.IH[OF rc this] obtain k where
    k: "client_requests rl2 ip = drop k (client_requests rl1 ip) @ admitted_at ip al2"
       "\<forall>x\<in>set (take k (client_requests rl1 ip)). x < c" by blast
  let ?q = "client_requests rl ip"
  show ?case
  proof (cases "i = ip")
    case False
    with is_allowed_other[of i ip rl t] s have "client_requests rl1 ip = ?q" by simp
    moreover from False al have "admitted_at ip al = admitted_at ip al2" by (simp add: admitted_at_def)
    ultimately show ?thesis using k rl' by auto
  next
    case True
    from Cons.prems(2) a True have tw: "t - of_int (window_seconds rl) \<le> c" "c \<le> t" by simp_all
    obtain j where j: "prune (cutoff_of rl t) ?q = drop j ?q" "\<forall>x\<in>set (take j ?q). x < cutoff_of rl t"
      using prune_drop by blast
    from j(2) tw(1) have jc: "\<forall>x\<in>set (take j ?q). x < c" by (auto simp: cutoff_of_def)
    show ?thesis
    proof (cases ok)
      case False
      with s r True have q1: "client_requests rl1 ip = drop j ?q"
        using j(1) by (auto simp: is_allowed_def Let_def client_requests_def split: if_splits)
      from False al have al': "admitted_at ip al = admitted_at ip al2" by simp
      have "client_requests rl' ip = drop (j + k) ?q @ admitted_at ip al"
        using k(1) q1 rl' al' by (simp add: add.commute)
      moreover have "\<forall>x\<in>set (take (j + k) ?q). x < c"
        using jc k(2) q1 by (auto simp: take_add)
      ultimately show ?thesis by blast
    next
      case ok: True
      with s r True have q1: "client_requests rl1 ip = drop j ?q @ [t]"
        using j(1) by (auto simp: is_allowed_def Let_def client_requests_def split: if_splits)
      from ok al True have al': "admitted_at ip al = t # admitted_at ip al2" by (simp add: admitted_at_def)
      have kle: "k \<le> length (drop j ?q)"
      proof (rule ccontr)
        assume "\<not> k \<le> length (drop j ?q)"
        then have "t \<in> set (take k (drop j ?q @ [t]))" by (simp add: not_le)
        with k(2) q1 have "t < c" by simp
        with tw(2) show False by simp
      qed
      then have "drop k (drop j ?q @ [t]) = drop (j + k) ?q @ [t]" by (simp add: add.commute)
      then have "client_requests rl' ip = drop (j + k) ?q @ admitted_at ip al"
        using k(1) q1 rl' al' by simp
      moreover have "\<forall>x\<in>set (take (j + k) ?q). x < c"
        using jc k(2) q1 kle by (auto simp: take_add)
      ultimately show ?thesis by blast
    qed
  qed
qed



text \<open>
  C3. Take any limiter state and any trace of admission checks, by any identities, in which
  every check of identity \<open>ip\<close> falls inside the window that ends at \<open>now\<close>, and in which
  \<open>max_requests\<close> checks of \<open>ip\<close> were allowed. Then the check of \<open>ip\<close> at \<open>now\<close> is denied
  with the limit message; it stores the pruned deque and appends nothing (from a deque that
  was empty before the trace, the stored timestamps are exactly the admitted ones); the
  remaining count is 0; and at any later time at which every stored timestamp has left the
  window, the check is allowed again (for a positive limit).
\<close>

theorem admission_denied_after_max:
  assumes run: "run_checks rl cs = (rl', allowed)"
    and window: "\<forall>(i, t) \<in> set cs. i = ip \<longrightarrow> cutoff_of rl now \<le> t \<and> t \<le> now"
    and full: "int (length (admitted_at ip allowed)) = max_requests rl"
  shows "fst (is_allowed rl' now ip) = (False, Some (limit_message rl))
       \<and> client_requests (snd (is_allowed rl' now ip)) ip = prune (cutoff_of rl now) (client_requests rl' ip)
       \<and> (client_requests rl ip = [] \<longrightarrow>
            client_requests (snd (is_allowed rl' now ip)) ip = admitted_at ip allowed)
       \<and> fst (get_remaining_requests (snd (is_allowed rl' now ip)) now ip) = 0
       \<and> (\<forall>later. 0 < max_requests rl
              \<and> (\<forall>t \<in> set (client_requests (snd (is_allowed rl' now ip)) ip). t < cutoff_of rl later)
            \<longrightarrow> fst (is_allowed (snd (is_allowed rl' now ip)) later ip) = (True, None))"
proof -
  let ?c = "cutoff_of rl now"
  let ?A = "admitted_at ip allowed"
  from run_checks_fields[OF run] have f: "max_requests rl' = max_requests rl" "window_seconds rl' = window_seconds rl"
    by simp_all
  then have c': "cutoff_of rl' now = ?c" by (simp add: cutoff_of_def)
  have msg: "limit_message rl' = limit_message rl" using f by (simp add: limit_message_def)
  have "\<forall>(i, t) \<in> set cs. i = ip \<longrightarrow> t - of_int (window_seconds rl) \<le> ?c \<and> ?c \<le> t"
    using window by (auto simp: cutoff_of_def)
  from run_checks_deque[OF run this] obtain k where
    k: "client_requests rl' ip = drop k (client_requests rl ip) @ ?A" by blast
  have "set ?A \<subseteq> snd ` {c \<in> set cs. fst c = ip}"
    using run
  proof (induction cs arbitrary: rl rl' allowed)
    case Nil
    then show ?case by (simp add: admitted_at_def)
  next
    case (Cons a cs)
    obtain i t where a: "a = (i, t)" by (cases a)
    obtain r rl1 where s: "is_allowed rl t i = (r, rl1)" by (cases "is_allowed rl t i")
    obtain ok m where r: "r = (ok, m)" by (cases r)
    obtain rl2 al2 where rc: "run_checks rl1 cs = (rl2, al2)" by (cases "run_checks rl1 cs")
    from Cons.prems a s r rc have al: "allowed = (if ok then (i, t) # al2 else al2)" by simp
    from Cons.IH[OF rc] have "set (admitted_at ip al2) \<subseteq> snd ` {c \<in> set cs. fst c = ip}" .
    with al a show ?case by (auto simp: admitted_at_def)
  qed
  with window have keep: "\<forall>x\<in>set ?A. \<not> x < ?c" by fastforce
  let ?q = "prune ?c (client_requests rl' ip)"
  have q: "?q = prune ?c (drop k (client_requests rl ip)) @ ?A"
    using k prune_append_keep[OF keep] by simp
  then have len: "max_requests rl' \<le> int (length ?q)" using full f by simp
  let ?rl2 = "snd (is_allowed rl' now ip)"
  have res: "is_allowed rl' now ip = ((False, Some (limit_message rl')), rl'\<lparr>requests := (requests rl')(ip \<mapsto> ?q)\<rparr>)"
    using len c' by (simp add: is_allowed_def Let_def)
  have q2: "client_requests ?rl2 ip = ?q" using res by (simp add: client_requests_def)
  have f2: "max_requests ?rl2 = max_requests rl" "window_seconds ?rl2 = window_seconds rl"
    using res f by simp_all
  have c2: "\<And>t. cutoff_of ?rl2 t = cutoff_of rl t" using f2 by (simp add: cutoff_of_def)
  have idem: "prune ?c ?q = ?q" by (rule prune_idem)
  have rem: "fst (get_remaining_requests ?rl2 now ip) = 0"
    using q2 idem c2 f2 len f by (simp add: get_remaining_requests_def Let_def)
  have later: "fst (is_allowed ?rl2 later ip) = (True, None)"
    if "0 < max_requests rl" "\<forall>t \<in> set (client_requests ?rl2 ip). t < cutoff_of rl later" for later
  proof -
    from that(2) have "prune (cutoff_of ?rl2 later) (client_requests ?rl2 ip) = []"
      using c2 prune_all_expired by simp
    with that(1) f2 show ?thesis by (simp add: is_allowed_def Let_def)
  qed
  have fresh: "client_requests ?rl2 ip = ?A" if "client_requests rl ip = []"
    using q q2 that by simp
  have denied: "fst (is_allowed rl' now ip) = (False, Some (limit_message rl))"
    using res msg by simp
  show ?thesis using denied q2 rem later fresh by blast
qed

lemma ten_checks_run:
  "run_checks default_limiter ten_checks =
     (default_limiter\<lparr>requests := [''1.2.3.4'' \<mapsto> [1, 2, 3, 4, 5, 6, 7, 8, 9, 10]]\<rparr>, ten_checks)"
  by (simp add: ten_checks_def default_limiter_def init_limiter_def is_allowed_def Let_def
      client_requests_def cutoff_of_def)

lemma msg10: "limit_message default_limiter = ''Rate limit exceeded. Maximum 10 requests per 24 hours.''"
  by (simp add: limit_message_def default_limiter_def init_limiter_def str_int_def str_nat.simps digit_char_def)

text \<open>The example of the specification: ten admitted checks of \<open>1.2.3.4\<close>, the eleventh
  is denied and leaves the state as it was, and a day later the identity is admitted again.\<close>

theorem admission_denied_after_max_witness:
  "is_allowed (fst (run_checks default_limiter ten_checks)) 11 ''1.2.3.4''
     = ((False, Some ''Rate limit exceeded. Maximum 10 requests per 24 hours.''),
        fst (run_checks default_limiter ten_checks))
   \<and> fst (get_remaining_requests (fst (run_checks default_limiter ten_checks)) 11 ''1.2.3.4'') = 0
   \<and> fst (is_allowed (fst (run_checks default_limiter ten_checks)) 86411 ''1.2.3.4'') = (True, None)"
proof -
  let ?rl = "fst (run_checks default_limiter ten_checks)"
  let ?al = "snd (run_checks default_limiter ten_checks)"
  have run: "run_checks default_limiter ten_checks = (?rl, ?al)" by simp
  have window: "\<forall>(i, t) \<in> set ten_checks. i = ''1.2.3.4'' \<longrightarrow> cutoff_of default_limiter 11 \<le> t \<and> t \<le> 11"
    by (simp add: ten_checks_def cutoff_of_def default_limiter_def init_limiter_def)
  have full: "int (length (admitted_at ''1.2.3.4'' ?al)) = max_requests default_limiter"
    by (simp add: ten_checks_run) (simp add: ten_checks_def admitted_at_def default_limiter_def init_limiter_def)
  have same: "snd (is_allowed ?rl 11 ''1.2.3.4'') = ?rl"
    by (simp add: ten_checks_run) (simp add: default_limiter_def init_limiter_def is_allowed_def Let_def
      client_requests_def cutoff_of_def)
  have old: "0 < max_requests default_limiter
     \<and> (\<forall>t \<in> set (client_requests (snd (is_allowed ?rl 11 ''1.2.3.4'')) ''1.2.3.4''). t < cutoff_of default_limiter 86411)"
    unfolding same
    by (simp add: ten_checks_run) (simp add: default_limiter_def init_limiter_def client_requests_def cutoff_of_def)
  from admission_denied_after_max [OF run window full] old same msg10
  show ?thesis by (metis prod.collapse)
qed

text \<open>
  C6. The code at the failing input: one request admitted at time 0 under the default
  limiter, then no call until time 100000. \<open>get_reset_time\<close> answers \<open>0 + 86400\<close>, a time
  that is already past, although the pruning of the admission check and of
  \<open>get_remaining_requests\<close> at that time leaves no live timestamp (remaining is 10).
\<close>

theorem reset_time_ignores_expiry:
  "fst (get_reset_time (snd (is_allowed default_limiter 0 ''1.2.3.4'')) ''1.2.3.4'') = Some 86400
   \<and> prune (cutoff_of default_limiter 100000)
        (client_requests (snd (is_allowed default_limiter 0 ''1.2.3.4'')) ''1.2.3.4'') = []
   \<and> fst (get_remaining_requests (snd (is_allowed default_limiter 0 ''1.2.3.4'')) 100000 ''1.2.3.4'') = 10"
  by (simp add: default_limiter_def init_limiter_def is_allowed_def Let_def get_reset_time_def
      get_remaining_requests_def client_requests_def cutoff_of_def)

section \<open>Properties of field extraction\<close>

subsection \<open>Soundness of the necessary condition\<close>

lemma lit_prefix_occurs: "lit_prefix ic w s \<Longrightarrow> occurs ic w s"
  by (cases s; cases w) auto

lemma occurs_suffix: "suffix s' s \<Longrightarrow> occurs ic w s' \<Longrightarrow> occurs ic w s"
proof (induction s)
  case Nil
  then show ?case by simp
next
  case (Cons c cs)
  from Cons.prems(1) have "s' = c # cs \<or> suffix s' cs" by (auto simp: suffix_Cons)
  then show ?case using Cons by auto
qed

lemma must_suffix: "suffix s' s \<Longrightarrow> must ic r s' \<Longrightarrow> must ic r s"
  by (induction ic r s rule: must.induct) (auto intro: occurs_suffix)

lemma lits_sound:
  "lits ic w (pv, s) k = Some x \<Longrightarrow>
     lit_prefix ic w s \<and> (\<exists>pv' s'. suffix s' s \<and> k (pv', s') = Some x)"
proof (induction w arbitrary: pv s)
  case Nil
  then show ?case by auto
next
  case (Cons a as)
  show ?case
  proof (cases s)
    case Nil
    with Cons.prems show ?thesis by simp
  next
    case (Cons c cs)
    with Cons.prems have m: "atom_match ic (Lit a) c" and r: "lits ic as (Some c, cs) k = Some x"
      by (auto split: if_splits)
    from Cons.IH[OF r] obtain pv' s' where
      p': "lit_prefix ic as cs" "suffix s' cs" "k (pv', s') = Some x" by blast
    from p'(2) have "suffix s' (c # cs)" by (rule suffix_ConsI)
    moreover from m p'(1) have "lit_prefix ic (a # as) (c # cs)" by simp
    ultimately show ?thesis unfolding Cons using p'(3) by blast
  qed
qed

lemma star_sound:
  "star ic a (pv, s) k = Some x \<Longrightarrow> \<exists>pv' s'. suffix s' s \<and> k (pv', s') = Some x"
proof (induction s arbitrary: pv)
  case Nil
  then show ?case by auto
next
  case (Cons c cs)
  show ?case
  proof (cases "atom_match ic a c \<and> star ic a (Some c, cs) k = Some x")
    case True
    with Cons.IH obtain pv' s' where p': "suffix s' cs" "k (pv', s') = Some x" by blast
    from p'(1) have "suffix s' (c # cs)" by (rule suffix_ConsI)
    with p'(2) show ?thesis by blast
  next
    case False
    with Cons.prems have "k (pv, c # cs) = Some x" by (auto split: if_splits option.splits)
    then show ?thesis by blast
  qed
qed

lemma lazy_star_sound:
  "lazy_star ic a (pv, s) k = Some x \<Longrightarrow> \<exists>pv' s'. suffix s' s \<and> k (pv', s') = Some x"
proof (induction s arbitrary: pv)
  case Nil
  then show ?case by auto
next
  case (Cons c cs)
  show ?case
  proof (cases "k (pv, c # cs) = Some x")
    case True
    then show ?thesis by blast
  next
    case False
    with Cons.prems have "lazy_star ic a (Some c, cs) k = Some x"
      by (auto split: if_splits option.splits)
    with Cons.IH obtain pv' s' where p': "suffix s' cs" "k (pv', s') = Some x" by blast
    from p'(1) have "suffix s' (c # cs)" by (rule suffix_ConsI)
    with p'(2) show ?thesis by blast
  qed
qed

lemma rep_sound:
  "rep ic a lo hi (pv, s) k = Some x \<Longrightarrow> \<exists>pv' s'. suffix s' s \<and> k (pv', s') = Some x"
proof (induction s arbitrary: pv lo hi)
  case Nil
  then show ?case by (auto split: if_splits)
next
  case (Cons c cs)
  show ?case
  proof (cases "k (pv, c # cs) = Some x")
    case True
    then show ?thesis by blast
  next
    case False
    with Cons.prems have "rep ic a (lo - 1) (hi - 1) (Some c, cs) k = Some x"
      by (auto split: if_splits option.splits)
    with Cons.IH obtain pv' s' where p': "suffix s' cs" "k (pv', s') = Some x" by blast
    from p'(1) have "suffix s' (c # cs)" by (rule suffix_ConsI)
    with p'(2) show ?thesis by blast
  qed
qed

lemma mt_sound:
  "mt f r (pv, s) g k = Some x \<Longrightarrow>
     must (ignorecase f) r s \<and> (\<exists>pv' s' g'. suffix s' s \<and> k (pv', s') g' = Some x)"
proof (induction r arbitrary: pv s g k)
  case (Atom a)
  then obtain c cs where s: "s = c # cs" and k: "k (Some c, cs) g = Some x"
    by (cases s) (auto split: if_splits)
  have "suffix cs s" using s by (simp add: suffix_ConsI)
  with k show ?case by (simp only: must.simps) blast
next
  case (Str w)
  then have "lits (ignorecase f) w (pv, s) (\<lambda>p'. k p' g) = Some x" by simp
  from lits_sound[OF this] show ?case by (auto intro: lit_prefix_occurs)
next
  case (Then r1 r2)
  then have "mt f r1 (pv, s) g (\<lambda>p' g'. mt f r2 p' g' k) = Some x" by simp
  from Then.IH(1)[OF this] obtain pv1 s1 g1 where
    1: "must (ignorecase f) r1 s" "suffix s1 s" "mt f r2 (pv1, s1) g1 k = Some x" by blast
  from Then.IH(2)[OF 1(3)] obtain pv2 s2 g2 where
    2: "must (ignorecase f) r2 s1" "suffix s2 s1" "k (pv2, s2) g2 = Some x" by blast
  from 1 2 have "must (ignorecase f) (Then r1 r2) s" by (auto intro: must_suffix)
  moreover from 2(2) 1(2) have "suffix s2 s" by (rule suffix_order.trans)
  ultimately show ?case using 2(3) by blast
next
  case (Or r1 r2)
  then have "mt f r1 (pv, s) g k = Some x \<or> mt f r2 (pv, s) g k = Some x"
    by (auto split: option.splits)
  then show ?case using Or.IH by auto
next
  case (Opt r)
  then have "mt f r (pv, s) g k = Some x \<or> k (pv, s) g = Some x"
    by (auto split: option.splits)
  then show ?case using Opt.IH by (simp only: must.simps) blast
next
  case (Star a)
  then show ?case using star_sound[of "ignorecase f" a pv s "\<lambda>p'. k p' g" x] by auto
next
  case (Plus a)
  then obtain c cs where s: "s = c # cs"
    and "star (ignorecase f) a (Some c, cs) (\<lambda>p'. k p' g) = Some x"
    by (cases s) (auto split: if_splits)
  from star_sound[OF this(2)] obtain pv' s' where p': "suffix s' cs" "k (pv', s') g = Some x" by blast
  from p'(1) s have "suffix s' s" by (simp add: suffix_ConsI)
  with p'(2) show ?case by (simp only: must.simps) blast
next
  case (PlusLazy a)
  then obtain c cs where s: "s = c # cs"
    and "lazy_star (ignorecase f) a (Some c, cs) (\<lambda>p'. k p' g) = Some x"
    by (cases s) (auto split: if_splits)
  from lazy_star_sound[OF this(2)] obtain pv' s' where p': "suffix s' cs" "k (pv', s') g = Some x" by blast
  from p'(1) s have "suffix s' s" by (simp add: suffix_ConsI)
  with p'(2) show ?case by (simp only: must.simps) blast
next
  case (Rep lo hi a)
  then show ?case using rep_sound[of "ignorecase f" a lo hi pv s "\<lambda>p'. k p' g" x] by auto
next
  case (Group r)
  then have "mt f r (pv, s) g (\<lambda>p' g'. k p' (Some (take (length s - length (snd p')) s))) = Some x"
    by simp
  from Group.IH[OF this] show ?case by (simp only: must.simps) blast
next
  case Bol
  then show ?case by (auto split: if_splits)
next
  case Eol
  then have "k (pv, s) g = Some x" by (simp split: if_splits)
  then show ?case by (simp only: must.simps) blast
qed

lemma search_from_must: "search_from f r (pv, s) = Some x \<Longrightarrow> must (ignorecase f) r s"
proof (induction s arbitrary: pv)
  case Nil
  then show ?case using mt_sound[of f r pv "[]" None "\<lambda>p g. Some g" x] by simp
next
  case (Cons c cs)
  show ?case
  proof (cases "mt f r (pv, c # cs) None (\<lambda>p g. Some g)")
    case None
    with Cons.prems have "search_from f r (Some c, cs) = Some x" by simp
    from Cons.IH[OF this] have "must (ignorecase f) r cs" .
    moreover have "suffix cs (c # cs)" by (simp add: suffix_ConsI)
    ultimately show ?thesis using must_suffix by blast
  next
    case (Some y)
    from mt_sound[OF this] show ?thesis by simp
  qed
qed

lemma no_match: "\<not> must (ignorecase f) r t \<Longrightarrow> re_search f r t = None"
  unfolding re_search_def using search_from_must[of f r None t]
  by (cases "search_from f r (None, t)") auto

lemma first_match_none:
  "list_all (\<lambda>p. \<not> must True p t) ps \<Longrightarrow> first_match ps t = None"
  by (induction ps) (auto simp: no_match search_flags_def)

lemma ord_table:
  "ord CHR ''a'' = 97" "ord CHR ''b'' = 98" "ord CHR ''c'' = 99" "ord CHR ''d'' = 100"
  "ord CHR ''e'' = 101" "ord CHR ''f'' = 102" "ord CHR ''g'' = 103" "ord CHR ''h'' = 104"
  "ord CHR ''i'' = 105" "ord CHR ''j'' = 106" "ord CHR ''k'' = 107" "ord CHR ''l'' = 108"
  "ord CHR ''m'' = 109" "ord CHR ''n'' = 110" "ord CHR ''o'' = 111" "ord CHR ''p'' = 112"
  "ord CHR ''q'' = 113" "ord CHR ''r'' = 114" "ord CHR ''s'' = 115" "ord CHR ''t'' = 116"
  "ord CHR ''u'' = 117" "ord CHR ''v'' = 118" "ord CHR ''w'' = 119" "ord CHR ''x'' = 120"
  "ord CHR ''y'' = 121" "ord CHR ''z'' = 122" "ord CHR ''A'' = 65" "ord CHR ''B'' = 66"
  "ord CHR ''C'' = 67" "ord CHR ''D'' = 68" "ord CHR ''E'' = 69" "ord CHR ''F'' = 70"
  "ord CHR ''G'' = 71" "ord CHR ''H'' = 72" "ord CHR ''I'' = 73" "ord CHR ''J'' = 74"
  "ord CHR ''K'' = 75" "ord CHR ''L'' = 76" "ord CHR ''M'' = 77" "ord CHR ''N'' = 78"
  "ord CHR ''O'' = 79" "ord CHR ''P'' = 80" "ord CHR ''Q'' = 81" "ord CHR ''R'' = 82"
  "ord CHR ''S'' = 83" "ord CHR ''T'' = 84" "ord CHR ''U'' = 85" "ord CHR ''V'' = 86"
  "ord CHR ''W'' = 87" "ord CHR ''X'' = 88" "ord CHR ''Y'' = 89" "ord CHR ''Z'' = 90"
  "ord CHR ''0'' = 48" "ord CHR ''1'' = 49" "ord CHR ''2'' = 50" "ord CHR ''3'' = 51"
  "ord CHR ''4'' = 52" "ord CHR ''5'' = 53" "ord CHR ''6'' = 54" "ord CHR ''7'' = 55"
  "ord CHR ''8'' = 56" "ord CHR ''9'' = 57" "ord CHR '' '' = 32" "ord CHR ''#'' = 35"
  "ord CHR '':'' = 58" "ord CHR ''$'' = 36" "ord CHR ''.'' = 46" "ord CHR '','' = 44"
  "ord CHR ''-'' = 45" "ord CHR ''/'' = 47" "ord CHR ''&'' = 38" "ord CHR ''('' = 40"
  "ord CHR '')'' = 41" "ord CHR ''+'' = 43" "ord CHR ''@'' = 64" "ord CHR ''_'' = 95"
  "ord CHR ''%'' = 37"
  by (simp_all add: ord_def)

lemma lower_cp_table:
  "lower_cp 10 = 10" "lower_cp 32 = 32" "lower_cp 35 = 35" "lower_cp 36 = 36" "lower_cp 37 = 37"
  "lower_cp 38 = 38" "lower_cp 40 = 40" "lower_cp 41 = 41" "lower_cp 43 = 43" "lower_cp 44 = 44"
  "lower_cp 45 = 45" "lower_cp 46 = 46" "lower_cp 47 = 47" "lower_cp 48 = 48" "lower_cp 49 = 49"
  "lower_cp 50 = 50" "lower_cp 51 = 51" "lower_cp 52 = 52" "lower_cp 53 = 53" "lower_cp 54 = 54"
  "lower_cp 55 = 55" "lower_cp 56 = 56" "lower_cp 57 = 57" "lower_cp 58 = 58" "lower_cp 64 = 64"
  "lower_cp 65 = 97" "lower_cp 66 = 98" "lower_cp 67 = 99" "lower_cp 68 = 100" "lower_cp 69 = 101"
  "lower_cp 70 = 102" "lower_cp 71 = 103" "lower_cp 72 = 104" "lower_cp 73 = 105" "lower_cp 74 = 106"
  "lower_cp 75 = 107" "lower_cp 76 = 108" "lower_cp 77 = 109" "lower_cp 78 = 110" "lower_cp 79 = 111"
  "lower_cp 80 = 112" "lower_cp 81 = 113" "lower_cp 82 = 114" "lower_cp 83 = 115" "lower_cp 84 = 116"
  "lower_cp 85 = 117" "lower_cp 86 = 118" "lower_cp 87 = 119" "lower_cp 88 = 120" "lower_cp 89 = 121"
  "lower_cp 90 = 122" "lower_cp 95 = 95" "lower_cp 97 = 97" "lower_cp 98 = 98" "lower_cp 99 = 99"
  "lower_cp 100 = 100" "lower_cp 101 = 101" "lower_cp 102 = 102" "lower_cp 103 = 103" "lower_cp 104 = 104"
  "lower_cp 105 = 105" "lower_cp 106 = 106" "lower_cp 107 = 107" "lower_cp 108 = 108" "lower_cp 109 = 109"
  "lower_cp 110 = 110" "lower_cp 111 = 111" "lower_cp 112 = 112" "lower_cp 113 = 113" "lower_cp 114 = 114"
  "lower_cp 115 = 115" "lower_cp 116 = 116" "lower_cp 117 = 117" "lower_cp 118 = 118" "lower_cp 119 = 119"
  "lower_cp 120 = 120" "lower_cp 121 = 121" "lower_cp 122 = 122"
  by (simp_all add: lower_cp_def)

lemmas pattern_defs = vendor_name_patterns_def vendor_address_patterns_def vendor_tax_id_patterns_def
  vendor_contact_patterns_def invoice_number_patterns_def invoice_date_patterns_def due_date_patterns_def
  po_number_patterns_def payment_terms_patterns_def subtotal_patterns_def tax_amount_patterns_def
  tax_rate_patterns_def discount_patterns_def shipping_patterns_def total_patterns_def
  currency_patterns_def bank_details_patterns_def notes_patterns_def payment_method_patterns_def

lemmas rx_eval = re_search_def search_flags_def spaces_def newline_def words_def lit_def one_def rng_def
  codes_def ord_def is_space_def is_digit_def lower_cp_def upper_cp_def str_lower_def str_strip_def
  id_chars_def colon_space_def amount_def money_def label_sep_def date_shape_def

lemmas must_eval = pattern_defs spaces_def newline_def words_def lit_def codes_def ord_table lower_cp_table
  id_chars_def colon_space_def amount_def money_def label_sep_def date_shape_def
  must.simps occurs.simps lit_prefix.simps atom_match.simps seq.simps alts.simps
  list.map list.pred_inject simp_thms if_True if_False rel_simps list.inject list.distinct

lemma example_lower:
  "str_lower example_text = [105, 110, 118, 111, 105, 99, 101, 32, 35, 58, 32, 105, 110, 118, 45, 50, 48, 50, 52, 45, 48, 48, 49, 10, 100, 97, 116, 101, 58, 32, 49, 50, 47, 49, 53, 47, 50, 48, 50, 52, 10, 115, 117, 98, 116, 111, 116, 97, 108, 58, 32, 36, 49, 48, 48, 46, 48, 48, 10, 116, 97, 120, 58, 32, 36, 49, 48, 46, 48, 48, 10, 116, 111, 116, 97, 108, 58, 32, 36, 49, 49, 48, 46, 48, 48]"
  by (simp add: example_text_def str_lower_def codes_def ord_def lower_cp_def)

lemma ex_vendor_name: "first_match vendor_name_patterns (str_lower example_text) = None"
  by (rule first_match_none) (simp only: example_lower must_eval)

lemma ex_vendor_address: "first_match vendor_address_patterns (str_lower example_text) = None"
  unfolding example_lower by (simp add: rx_eval vendor_address_patterns_def)

lemma ex_vendor_tax_id: "first_match vendor_tax_id_patterns (str_lower example_text) = None"
  by (rule first_match_none) (simp only: example_lower must_eval)

lemma ex_vendor_contact: "first_match vendor_contact_patterns (str_lower example_text) = None"
  by (rule first_match_none) (simp only: example_lower must_eval)

lemma ex_invoice_number: "first_match invoice_number_patterns (str_lower example_text) = Some (Inr (codes ''inv-2024-001''))"
  unfolding example_lower by (simp add: rx_eval invoice_number_patterns_def)

lemma ex_invoice_date: "first_match invoice_date_patterns (str_lower example_text) = Some (Inr (codes ''12/15/2024''))"
  unfolding example_lower by (simp add: rx_eval invoice_date_patterns_def)

lemma ex_due_date: "first_match due_date_patterns (str_lower example_text) = None"
  by (rule first_match_none) (simp only: example_lower must_eval)

lemma ex_po_number: "first_match po_number_patterns (str_lower example_text) = None"
  by (rule first_match_none) (simp only: example_lower must_eval)

lemma ex_payment_terms: "first_match payment_terms_patterns (str_lower example_text) = None"
  by (rule first_match_none) (simp only: example_lower must_eval)

lemma ex_subtotal: "first_match subtotal_patterns (str_lower example_text) = Some (Inr (codes ''100.00''))"
  unfolding example_lower by (simp add: rx_eval subtotal_patterns_def)

lemma ex_tax_amount: "first_match tax_amount_patterns (str_lower example_text) = Some (Inr (codes ''10.00''))"
  unfolding example_lower by (simp add: rx_eval tax_amount_patterns_def)

lemma ex_tax_rate: "first_match tax_rate_patterns (str_lower example_text) = None"
  by (rule first_match_none) (simp only: example_lower must_eval)

lemma ex_discount: "first_match discount_patterns (str_lower example_text) = None"
  by (rule first_match_none) (simp only: example_lower must_eval)

lemma ex_shipping: "first_match shipping_patterns (str_lower example_text) = None"
  by (rule first_match_none) (simp only: example_lower must_eval)

lemma ex_total: "first_match total_patterns (str_lower example_text) = Some (Inr (codes ''100.00''))"
  unfolding example_lower by (simp add: rx_eval total_patterns_def)

lemma ex_currency: "first_match currency_patterns (str_lower example_text) = Some (Inr (codes ''$''))"
  unfolding example_lower by (simp add: rx_eval currency_patterns_def)

lemma ex_bank_details: "first_match bank_details_patterns (str_lower example_text) = None"
  by (rule first_match_none) (simp only: example_lower must_eval)

lemma ex_notes: "first_match notes_patterns (str_lower example_text) = None"
  by (rule first_match_none) (simp only: example_lower must_eval)

lemma ex_payment_method: "first_match payment_method_patterns (str_lower example_text) = None"
  by (rule first_match_none) (simp only: example_lower must_eval)

subsection \<open>The example text of the specification\<close>

lemmas ex_fields = ex_vendor_name ex_vendor_address ex_vendor_tax_id ex_vendor_contact ex_invoice_number
  ex_invoice_date ex_due_date ex_po_number ex_payment_terms ex_subtotal ex_tax_amount ex_tax_rate
  ex_discount ex_shipping ex_total ex_currency ex_bank_details ex_notes ex_payment_method

lemma example_loop:
  "extract_loop patterns (str_lower example_text) [] =
     Inr [(''invoice_number'', CStr (codes ''inv-2024-001'')),
          (''invoice_date'', CStr (codes ''12/15/2024'')),
          (''subtotal'', CStr (codes ''100.00'')),
          (''tax_amount'', CStr (codes ''10.00'')),
          (''total'', CStr (codes ''100.00'')),
          (''currency'', CStr (codes ''$''))]"
  by (simp add: patterns_def ex_fields)

lemma example_line_items: "extract_line_items fl example_text = []"
  by (simp add: extract_line_items_def example_text_def codes_def ord_def line_item_of_def
      header_words_def str_strip_def str_lower_def is_space_def lower_cp_def List.map_filter_simps
      split_ws_def Let_def re_match_def no_flags_def number_shape_def lit_def one_def rng_def is_digit_def)

lemma example_candidates:
  "extract_fields fl example_text =
     Inr [(''invoice_number'', CStr (codes ''inv-2024-001'')),
          (''invoice_date'', CStr (codes ''12/15/2024'')),
          (''subtotal'', CStr (codes ''100.00'')),
          (''tax_amount'', CStr (codes ''10.00'')),
          (''total'', CStr (codes ''100.00'')),
          (''currency'', CStr (codes ''$''))]"
  by (simp add: extract_fields_def example_loop example_line_items)

lemma float_100: "float_decimal (codes ''100.00'') = Some 100"
  by (simp add: float_decimal_def unsigned_decimal_def digits_value_def codes_def ord_def
      str_strip_def is_space_def is_digit_def)

lemma float_10: "float_decimal (codes ''10.00'') = Some 10"
  by (simp add: float_decimal_def unsigned_decimal_def digits_value_def codes_def ord_def
      str_strip_def is_space_def is_digit_def)

lemma example_date: "re_match no_flags date_shape (codes ''12/15/2024'') \<noteq> None"
  by (simp add: re_match_def no_flags_def date_shape_def codes_def ord_def one_def is_digit_def)

lemma example_validated:
  "validate_loop float_decimal
     [(''invoice_number'', CStr (codes ''inv-2024-001'')),
      (''invoice_date'', CStr (codes ''12/15/2024'')),
      (''subtotal'', CStr (codes ''100.00'')),
      (''tax_amount'', CStr (codes ''10.00'')),
      (''total'', CStr (codes ''100.00'')),
      (''currency'', CStr (codes ''$''))] ([], [])
   = ([(''invoice_number'', PStr (codes ''INV-2024-001'')),
       (''invoice_date'', PStr (codes ''12/15/2024'')),
       (''subtotal'', PNum 100), (''tax_amount'', PNum 10), (''total'', PNum 100),
       (''currency'', PStr (codes ''$''))],
      [(''invoice_number'', 9 / 10), (''invoice_date'', 8 / 10), (''subtotal'', 9 / 10),
       (''tax_amount'', 9 / 10), (''total'', 9 / 10), (''currency'', 6 / 10)])"
proof -
  have v1: "validate_field float_decimal ''invoice_number'' (CStr (codes ''inv-2024-001''))
              = (Some (PStr (codes ''INV-2024-001'')), 9 / 10)"
    by (simp add: validate_field_def validate_try_def amount_fields_def date_fields_def
        str_upper_def codes_def ord_def upper_cp_def)
  have v2: "validate_field float_decimal ''invoice_date'' (CStr (codes ''12/15/2024''))
              = (Some (PStr (codes ''12/15/2024'')), 8 / 10)"
    using example_date
    by (simp add: validate_field_def validate_try_def amount_fields_def date_fields_def)
       (simp add: codes_def)
  have v3: "validate_field float_decimal f (CStr (codes ''100.00'')) = (Some (PNum 100), 9 / 10)"
    if "f \<in> set amount_fields" for f
    using that float_100
    by (simp add: validate_field_def validate_try_def) (simp add: codes_def ord_def)
  have v4: "validate_field float_decimal ''tax_amount'' (CStr (codes ''10.00'')) = (Some (PNum 10), 9 / 10)"
    using float_10
    by (simp add: validate_field_def validate_try_def amount_fields_def) (simp add: codes_def ord_def)
  have v5: "validate_field float_decimal ''currency'' (CStr (codes ''$'')) = (Some (PStr (codes ''$'')), 6 / 10)"
    by (simp add: validate_field_def validate_try_def amount_fields_def date_fields_def codes_def)
  have v3a: "validate_field float_decimal ''subtotal'' (CStr (codes ''100.00'')) = (Some (PNum 100), 9 / 10)"
    and v3b: "validate_field float_decimal ''total'' (CStr (codes ''100.00'')) = (Some (PNum 100), 9 / 10)"
    by (rule v3, simp add: amount_fields_def)+
  show ?thesis
    by (simp add: v1 v2 v3a v3b v4 v5)
qed

text \<open>
  C1. The code at the failing input, the example text of the specification. The first
  pattern of \<open>total\<close> is not anchored at a word boundary and \<open>re.search\<close> returns the leftmost
  match, which lies inside \<open>subtotal: $100.00\<close>: the candidate for \<open>total\<close> is \<open>100.00\<close>, not
  \<open>110.00\<close>. Validation then finds \<open>100 + 10 \<noteq> 100\<close>, so both \<open>subtotal_tax_total_match\<close> and
  \<open>calculations_correct\<close> are false, and the overall confidence is 0.78. Only the invoice
  number is as the specification says.
\<close>

theorem example_total_is_subtotal:
  "map_sum id (validate_extraction float_decimal) (extract_fields float_decimal example_text) =
     Inr \<lparr>extracted_data =
            [(''invoice_number'', PStr (codes ''INV-2024-001'')),
             (''invoice_date'', PStr (codes ''12/15/2024'')),
             (''subtotal'', PNum 100), (''tax_amount'', PNum 10), (''total'', PNum 100),
             (''currency'', PStr (codes ''$''))],
          field_confidence =
            [(''invoice_number'', 9 / 10), (''invoice_date'', 8 / 10), (''subtotal'', 9 / 10),
             (''tax_amount'', 9 / 10), (''total'', 9 / 10), (''currency'', 6 / 10)],
          math_validation =
            \<lparr>subtotal_tax_total_match = False, line_items_sum_match = False,
             calculations_correct = False\<rparr>,
          overall_confidence = 78 / 100,
          missing_required_fields = [''vendor_name'']\<rparr>"
proof -
  have ne: "codes ''INV-2024-001'' \<noteq> []" "codes ''12/15/2024'' \<noteq> []" "codes ''$'' \<noteq> []"
    by (simp_all add: codes_def)
  have fl: "\<lfloor>235 / 3 :: rat\<rfloor> = 78"
    by (simp add: floor_eq_iff)
  show ?thesis
    unfolding example_candidates
    by (simp add: validate_extraction_def example_validated
        validate_mathematics_def get_or_zero_def line_items_agree_def
        calculate_overall_confidence_def required_fields_def py_round2_def
        get_missing_required_fields_def ne fl Let_def del: validate_loop.simps)
qed

section \<open>Properties of validation\<close>

subsection \<open>Mathematical validation\<close>

lemma get_or_zero_update:
  "k \<noteq> ''line_items'' \<Longrightarrow> get_or_zero (AList.update ''line_items'' v vd) k = get_or_zero vd k"
  by (simp add: get_or_zero_def update_conv')

lemma validate_mathematics_typed:
  assumes "line_items_typed vd"
  shows "calculations_correct (validate_mathematics vd)
           = subtotal_tax_total_match (validate_mathematics vd)"
proof -
  from assms have "\<exists>b. line_items_agree vd x = Inr b" for x
    by (auto simp: line_items_typed_def line_items_agree_def split: option.splits pyval.splits)
  then show ?thesis
    by (auto simp: validate_mathematics_def Let_def split: sum.splits prod.splits)
       (metis Inl_Inr_False)+
qed

lemma line_items_agree_items:
  "\<exists>b. line_items_agree (AList.update ''line_items'' (PItems xs) vd) x = Inr b"
  by (auto simp: line_items_agree_def update_conv')

lemma calculations_correct_items:
  "calculations_correct (validate_mathematics (AList.update ''line_items'' (PItems xs) vd))
     = (case (as_number (get_or_zero vd ''subtotal''), as_number (get_or_zero vd ''tax_amount''),
              as_number (get_or_zero vd ''total''), as_number (get_or_zero vd ''discount''),
              as_number (get_or_zero vd ''shipping'')) of
          (Inr subtotal, Inr tax_amount, Inr total_due, Inr discount, Inr shipping) \<Rightarrow>
             \<bar>subtotal + tax_amount + shipping - discount - total_due\<bar> < 1 / 100
        | _ \<Rightarrow> False)"
  using line_items_agree_items[of xs vd]
  by (auto simp: validate_mathematics_def Let_def get_or_zero_update split: sum.splits prod.splits)
     (metis Inl_Inr_False)+

text \<open>
  C2. For every record whose \<open>line_items\<close> entry, if present, is a list of line items (the
  records of the data model, and the only ones extraction followed by validation produces),
  \<open>calculations_correct\<close> equals \<open>subtotal_tax_total_match\<close>; and the line items have no
  influence on \<open>calculations_correct\<close>: replacing them by any other list leaves it unchanged.
\<close>

theorem calculations_correct_is_total_match:
  assumes "line_items_typed vd"
  shows "calculations_correct (validate_mathematics vd)
           = subtotal_tax_total_match (validate_mathematics vd)
       \<and> (\<forall>xs ys. calculations_correct (validate_mathematics (AList.update ''line_items'' (PItems xs) vd))
                 = calculations_correct (validate_mathematics (AList.update ''line_items'' (PItems ys) vd)))"
  using validate_mathematics_typed[OF assms] by (simp add: calculations_correct_items)

text \<open>A record whose amounts reconcile (100 + 10 = 110) while its line items do not sum to the
  subtotal: \<open>calculations_correct\<close> holds although \<open>line_items_sum_match\<close> does not.\<close>

theorem calculations_correct_is_total_match_witness:
  "line_items_typed sample_record
   \<and> subtotal_tax_total_match (validate_mathematics sample_record)
   \<and> \<not> line_items_sum_match (validate_mathematics sample_record)
   \<and> calculations_correct (validate_mathematics sample_record)"
proof -
  have h: "line_items_typed sample_record"
    by (simp add: line_items_typed_def sample_record_def)
  have m: "subtotal_tax_total_match (validate_mathematics sample_record)"
    and l: "\<not> line_items_sum_match (validate_mathematics sample_record)"
    by (simp_all add: validate_mathematics_def sample_record_def get_or_zero_def
        line_items_agree_def or_zero_def Let_def)
  from calculations_correct_is_total_match [OF h] m
  have "calculations_correct (validate_mathematics sample_record)" by blast
  with h m l show ?thesis by blast
qed

subsection \<open>Per-field validation\<close>

lemma validate_try_string:
  "\<exists>r. validate_try fl field (CStr s) = Inr r"
proof (cases "validate_try fl field (CStr s)")
  case (Inl e)
  then show ?thesis by (simp add: validate_try_def Let_def split: if_splits)
next
  case (Inr r)
  then show ?thesis by blast
qed

text \<open>
  C10. On a string candidate, for every field name and every parser \<open>fl\<close>: the body of the \<open>try\<close>
  raises nothing, so \<open>validate_field\<close> returns without reaching the fallback; \<open>clean_number\<close> is
  a total function into \<open>rat option\<close>; and the confidence returned is 0 exactly when the field
  is dropped and otherwise one of 0.5, 0.6, 0.7, 0.8, 0.9, never the fallback's 0.3.
\<close>

theorem validate_field_total_on_strings:
  "(\<exists>r. validate_try fl field (CStr s) = Inr r)
   \<and> (case validate_field fl field (CStr s) of
        (None, c) \<Rightarrow> c = 0
      | (Some v, c) \<Rightarrow> c \<in> {5 / 10, 6 / 10, 7 / 10, 8 / 10, 9 / 10})
   \<and> snd (validate_field fl field (CStr s)) \<noteq> 3 / 10"
proof -
  have 1: "\<exists>r. validate_try fl field (CStr s) = Inr r" by (rule validate_try_string)
  have 2: "validate_field fl field (CStr s) = (None, 0)
         \<or> (\<exists>v. validate_field fl field (CStr s) = (Some v, 5 / 10))
         \<or> (\<exists>v. validate_field fl field (CStr s) = (Some v, 6 / 10))
         \<or> (\<exists>v. validate_field fl field (CStr s) = (Some v, 7 / 10))
         \<or> (\<exists>v. validate_field fl field (CStr s) = (Some v, 8 / 10))
         \<or> (\<exists>v. validate_field fl field (CStr s) = (Some v, 9 / 10))"
  proof (cases "s = []")
    case True
    then show ?thesis by (simp add: validate_field_def)
  next
    case False
    show ?thesis
    proof (cases "field \<in> set amount_fields")
      case True
      with False show ?thesis
        by (cases "fl (filter (\<lambda>c. c \<noteq> ord CHR ''$'' \<and> c \<noteq> ord CHR '','') s)")
           (simp_all add: validate_field_def validate_try_def Let_def)
    next
      case False
      with \<open>s \<noteq> []\<close> show ?thesis
        by (simp add: validate_field_def validate_try_def)
    qed
  qed
  from 2 have 3: "case validate_field fl field (CStr s) of
        (None, c) \<Rightarrow> c = 0
      | (Some v, c) \<Rightarrow> c \<in> {5 / 10, 6 / 10, 7 / 10, 8 / 10, 9 / 10}"
    by (elim disjE exE) simp_all
  from 2 have 4: "snd (validate_field fl field (CStr s)) \<noteq> 3 / 10"
    by (elim disjE exE) simp_all
  from 1 3 4 show ?thesis by blast
qed

text \<open>The fallback is reachable, by candidates that are not strings.\<close>

lemma fallback_reached_by_non_string:
  "xs \<noteq> [] \<Longrightarrow> validate_field fl ''invoice_number'' (CItems xs) = (Some (PItems xs), 3 / 10)"
  "xs \<noteq> [] \<Longrightarrow> validate_field fl ''invoice_date'' (CItems xs) = (Some (PItems xs), 3 / 10)"
  by (simp_all add: validate_field_def validate_try_def amount_fields_def date_fields_def)

subsection \<open>The record and its confidence map\<close>

lemma update_keys_same:
  "map fst a = map fst b \<Longrightarrow> map fst (AList.update k v a) = map fst (AList.update k w b)"
  by (simp add: update_keys image_set[symmetric] del: image_set)

lemma validate_loop_keys:
  "map fst va = map fst co \<Longrightarrow>
     map fst (fst (validate_loop fl cands (va, co))) = map fst (snd (validate_loop fl cands (va, co)))"
proof (induction cands arbitrary: va co)
  case Nil
  then show ?case by simp
next
  case (Cons c cands)
  obtain field v where c: "c = (field, v)" by (cases c)
  show ?case
  proof (cases "field = ''line_items''")
    case True
    with c Cons.IH[OF update_keys_same[OF Cons.prems]] show ?thesis by simp
  next
    case False
    obtain r cf where vf: "validate_field fl field v = (r, cf)" by (cases "validate_field fl field v")
    show ?thesis
    proof (cases r)
      case None
      with c False vf Cons.IH[OF Cons.prems] show ?thesis by simp
    next
      case (Some x)
      with c False vf Cons.IH[OF update_keys_same[OF Cons.prems]] show ?thesis by simp
    qed
  qed
qed

lemma validate_loop_untouched:
  "k \<notin> fst ` set cands \<Longrightarrow>
     map_of (fst (validate_loop fl cands (va, co))) k = map_of va k
     \<and> map_of (snd (validate_loop fl cands (va, co))) k = map_of co k"
proof (induction cands arbitrary: va co)
  case Nil
  then show ?case by simp
next
  case (Cons c cands)
  obtain field v where c: "c = (field, v)" by (cases c)
  from Cons.prems c have ne: "field \<noteq> k" and rest: "k \<notin> fst ` set cands" by auto
  obtain r cf where vf: "validate_field fl field v = (r, cf)" by (cases "validate_field fl field v")
  have u: "map_of (AList.update field x al) k = map_of al k" for x :: 'x and al
    using ne by (simp add: update_conv')
  show ?case
  proof (cases "field = ''line_items''")
    case True
    then show ?thesis using c ne ne[symmetric] Cons.IH[OF rest] by (simp add: update_conv')
  next
    case False
    then show ?thesis using c vf Cons.IH[OF rest] by (cases r) (simp_all add: u)
  qed
qed

lemma validate_loop_line_items:
  assumes "distinct (map fst cands)" and "map_of cands ''line_items'' = Some v"
  shows "map_of (fst (validate_loop fl cands (va, co))) ''line_items'' = Some (val_of v)
       \<and> map_of (snd (validate_loop fl cands (va, co))) ''line_items'' = Some (if truthy v then 8 / 10 else 0)"
  using assms
proof (induction cands arbitrary: va co)
  case Nil
  then show ?case by simp
next
  case (Cons c cands)
  obtain field w where c: "c = (field, w)" by (cases c)
  show ?case
  proof (cases "field = ''line_items''")
    case True
    with Cons.prems c have w: "w = v" and rest: "''line_items'' \<notin> fst ` set cands" by auto
    from validate_loop_untouched[OF rest] True c w show ?thesis by (simp add: update_conv')
  next
    case False
    with Cons.prems c have d: "distinct (map fst cands)" and m: "map_of cands ''line_items'' = Some v"
      by auto
    obtain r cf where vf: "validate_field fl field w = (r, cf)" by (cases "validate_field fl field w")
    show ?thesis
      using c False vf Cons.IH[OF d m] by (cases r) simp_all
  qed
qed

text \<open>
  C8. For every candidate map (a dict: its keys are distinct), the validated record and the
  confidence map have the same keys, in the same order; and a \<open>line_items\<close> candidate is kept
  as it is, with confidence 0.8 when the list is non-empty and 0.0 when it is empty.
\<close>

theorem validated_and_confidence_same_keys:
  assumes "distinct (map fst cands)"
  shows "map fst (extracted_data (validate_extraction fl cands))
           = map fst (field_confidence (validate_extraction fl cands))
       \<and> (\<forall>v. map_of cands ''line_items'' = Some v \<longrightarrow>
             map_of (extracted_data (validate_extraction fl cands)) ''line_items'' = Some (val_of v)
             \<and> map_of (field_confidence (validate_extraction fl cands)) ''line_items''
                 = Some (if truthy v then 8 / 10 else 0))"
proof -
  obtain va co where l: "validate_loop fl cands ([], []) = (va, co)"
    by (cases "validate_loop fl cands ([], [])")
  have r: "extracted_data (validate_extraction fl cands) = va"
          "field_confidence (validate_extraction fl cands) = co"
    using l by (simp_all add: validate_extraction_def Let_def)
  from validate_loop_keys[of "[]" "[]" fl cands] l have "map fst va = map fst co" by simp
  moreover have "map_of va ''line_items'' = Some (val_of v)
      \<and> map_of co ''line_items'' = Some (if truthy v then 8 / 10 else 0)"
    if "map_of cands ''line_items'' = Some v" for v
    using validate_loop_line_items[OF assms that, of fl "[]" "[]"] l by simp
  ultimately show ?thesis unfolding r by blast
qed

text \<open>A candidate map with an unparsable total (dropped from both maps) and an empty list of
  line items (kept in both, at confidence 0).\<close>

theorem validated_and_confidence_same_keys_witness:
  "distinct (map fst sample_candidates)
   \<and> map fst (extracted_data (validate_extraction float_decimal sample_candidates))
        = [''invoice_number'', ''line_items'']
   \<and> map fst (field_confidence (validate_extraction float_decimal sample_candidates))
        = [''invoice_number'', ''line_items'']
   \<and> map_of (field_confidence (validate_extraction float_decimal sample_candidates)) ''line_items''
        = Some 0"
proof -
  have d: "distinct (map fst sample_candidates)"
    by (simp add: sample_candidates_def)
  have m: "map_of sample_candidates ''line_items'' = Some (CItems [])"
    by (simp add: sample_candidates_def)
  have na: "float_decimal (codes ''n/a'') = None"
    by (simp add: float_decimal_def unsigned_decimal_def codes_def ord_def str_strip_def
        is_space_def is_digit_def)
  have k: "map fst (extracted_data (validate_extraction float_decimal sample_candidates))
             = [''invoice_number'', ''line_items'']"
    using na
    by (simp add: validate_extraction_def sample_candidates_def validate_field_def validate_try_def
        amount_fields_def date_fields_def Let_def)
       (simp add: codes_def ord_def)
  from validated_and_confidence_same_keys [OF d, of float_decimal] m k
  show ?thesis using d by simp
qed

end
